theory Spec2Isabelle
  imports Main
begin

section \<open>The multi-connection downloader of avhttp\<close>

text \<open>
  This theory embeds \<^verbatim>\<open>include/avhttp/multi_download.hpp\<close>: the settings, the
  per-connection object, the coordinator \<^verbatim>\<open>multi_download\<close> with its members, and
  the member functions \<^verbatim>\<open>open\<close> (both overloads), \<^verbatim>\<open>close\<close>, the three completion
  handlers and \<^verbatim>\<open>on_tick\<close>.

  The coordinator talks to collaborators whose code is not among the sources
  (\<^verbatim>\<open>http_stream\<close>, the option container, the storage, Boost's timer and clock).
  Every call on one of them is recorded, in program order, in a log of events held by
  the model of the \<^verbatim>\<open>io_service\<close>; what the collaborators answer (the probe's
  response, the readings of the clock) is input taken from the same record.
\<close>

subsection \<open>Constants and settings\<close>

datatype downlad_mode = compact_mode | dispersion_mode | quick_read_mode

definition default_request_piece_num :: int where
  "default_request_piece_num = 10"

definition default_time_out :: int where
  "default_time_out = 11"

definition default_piece_size :: int where
  "default_piece_size = 32768"

definition default_connections_limit :: int where
  "default_connections_limit = 5"

text \<open>
  The fields are C++ \<^verbatim>\<open>int\<close>s. The code only compares them, counts up to one of them
  and converts one to a duration, so no operation on them can overflow and they are
  modelled as integers. \<^verbatim>\<open>fs::path\<close> is a string; a default-constructed path is empty.
\<close>

record settings =
  m_download_rate_limit :: int
  m_connections_limit :: int
  m_piece_size :: int
  m_time_out :: int
  m_downlad_mode :: downlad_mode
  m_meta_file :: string

text \<open>The constructor \<^verbatim>\<open>settings::settings()\<close>.\<close>

definition settings_ctor :: settings where
  "settings_ctor =
     \<lparr>m_download_rate_limit = - 1,
      m_connections_limit = - 1,
      m_piece_size = - 1,
      m_time_out = 11,
      m_downlad_mode = dispersion_mode,
      m_meta_file = []\<rparr>"

subsection \<open>Collaborators\<close>

type_synonym url = string

text \<open>
  A \<^verbatim>\<open>boost::system::error_code\<close> is its integer value; it converts to
  \<^verbatim>\<open>true\<close> exactly when the value is not 0.
\<close>

type_synonym error_code = int

text \<open>
  A \<^verbatim>\<open>boost::posix_time::ptime\<close> is a count of microseconds; \<open>None\<close> is the
  value \<^verbatim>\<open>not_a_date_time\<close> of a default-constructed one.
\<close>

type_synonym ptime = "int option"

definition seconds :: "int \<Rightarrow> int" where
  "seconds n = n * 1000000"

text \<open>A \<^verbatim>\<open>http_stream_ptr\<close> is the identity of the stream it points to, or null.\<close>

datatype http_stream_ptr = Null_stream | Stream nat

text \<open>
  Modelled from the spec: the option container \<^verbatim>\<open>request_opts\<close> /
  \<^verbatim>\<open>response_opts\<close> of \<^verbatim>\<open>http_stream.hpp\<close> is not among the sources. It is a
  list of name-value pairs in insertion order; \<^verbatim>\<open>find(key, val)\<close> stores the value
  of the first entry named \<open>key\<close> in \<open>val\<close> and leaves \<open>val\<close> as it was when there
  is none.
\<close>

type_synonym option_items = "(string \<times> string) list"

definition find_opt :: "option_items \<Rightarrow> string \<Rightarrow> string \<Rightarrow> string" where
  "find_opt opts key val = (case map_of opts key of None \<Rightarrow> val | Some v \<Rightarrow> v)"

text \<open>
  What the synchronous \<^verbatim>\<open>http_stream::open\<close> of the probe leaves behind: the error
  code, the redirect target \<^verbatim>\<open>location()\<close> and the response options, among them
  the pseudo-header \<^verbatim>\<open>_status_code\<close>.
\<close>

record http_response =
  resp_ec :: error_code
  resp_location :: string
  response_options :: option_items

datatype event =
    Request_options http_stream_ptr option_items
  | Open_sync http_stream_ptr url
  | Clear http_stream_ptr
  | Async_open http_stream_ptr url nat
  | Async_request http_stream_ptr option_items nat
  | Close http_stream_ptr
  | Async_wait int

text \<open>
  \<open>Async_open s u i\<close> is \<^verbatim>\<open>s->async_open(u, bind(handle_open, this, i, s, _1))\<close>,
  \<open>Async_request s opts i\<close> the same for \<^verbatim>\<open>handle_request\<close>, and \<open>Async_wait d\<close> is
  \<^verbatim>\<open>m_timer.async_wait(bind(on_tick, this))\<close> on a timer that expires at \<open>d\<close>.

  The \<^verbatim>\<open>io_service\<close> stands for everything outside the coordinator: \<open>server\<close> is what
  a synchronous open of a URL answers, \<open>clock\<close> gives the successive readings of
  \<^verbatim>\<open>microsec_clock::local_time()\<close> (\<open>reads\<close> counts those taken so far),
  \<open>next_stream\<close> numbers the streams created with \<^verbatim>\<open>new http_stream\<close>, and \<open>events\<close>
  is the log.
\<close>

record io_service =
  server :: "url \<Rightarrow> http_response"
  clock :: "nat \<Rightarrow> int"
  reads :: nat
  next_stream :: nat
  events :: "event list"

definition local_time :: "io_service \<Rightarrow> int \<times> io_service" where
  "local_time io = (clock io (reads io), io\<lparr>reads := Suc (reads io)\<rparr>)"

definition new_http_stream :: "io_service \<Rightarrow> http_stream_ptr \<times> io_service" where
  "new_http_stream io = (Stream (next_stream io), io\<lparr>next_stream := Suc (next_stream io)\<rparr>)"

definition emit :: "event \<Rightarrow> io_service \<Rightarrow> io_service" where
  "emit e io = io\<lparr>events := events io @ [e]\<rparr>"

text \<open>
  Storage: \<^verbatim>\<open>storage_constructor_type\<close> is a pointer to a function that returns a
  pointer to a \<^verbatim>\<open>storage_interface\<close>. \<open>None\<close> is the null function pointer;
  \<open>Some r\<close> is a function that returns \<open>r\<close>, where \<open>r = None\<close> is the null pointer.
  \<^verbatim>\<open>default_storage_constructor()\<close> returns a new \<^verbatim>\<open>file\<close>.
\<close>

datatype storage_interface = File_storage | User_storage nat

type_synonym storage_constructor_type = "storage_interface option option"

definition default_storage_constructor :: "storage_interface option" where
  "default_storage_constructor = Some File_storage"

subsection \<open>Library functions on strings\<close>

text \<open>
  \<^verbatim>\<open>boost::lexical_cast<boost::int64_t>(std::string)\<close>, from Boost.Conversion: an
  optional sign \<^verbatim>\<open>+\<close> or \<^verbatim>\<open>-\<close>, then one or more decimal digits and nothing else;
  the value must fit 64 bits signed. Anything else throws \<^verbatim>\<open>bad_lexical_cast\<close>,
  which is \<open>None\<close> here.
\<close>

definition is_digit :: "char \<Rightarrow> bool" where
  "is_digit c = (48 \<le> (of_char c :: nat) \<and> (of_char c :: nat) \<le> 57)"

fun digits_value :: "nat \<Rightarrow> string \<Rightarrow> nat option" where
  "digits_value acc [] = Some acc"
| "digits_value acc (c # cs) =
     (if is_digit c then digits_value (acc * 10 + ((of_char c :: nat) - 48)) cs else None)"

definition lcast_ret_unsigned :: "string \<Rightarrow> nat option" where
  "lcast_ret_unsigned s =
     (if s = [] then None
      else case digits_value 0 s of
             None \<Rightarrow> None
           | Some v \<Rightarrow> if v < 2 ^ 64 then Some v else None)"

definition lexical_cast_int64 :: "string \<Rightarrow> int option" where
  "lexical_cast_int64 s =
     (case s of
        [] \<Rightarrow> None
      | c # cs \<Rightarrow>
          let has_minus = (c = CHR ''-'');
              body = (if c = CHR ''-'' \<or> c = CHR ''+'' then cs else s)
          in case lcast_ret_unsigned body of
               None \<Rightarrow> None
             | Some v \<Rightarrow>
                 if has_minus then (if v \<le> 2 ^ 63 then Some (- int v) else None)
                 else (if v \<le> 2 ^ 63 - 1 then Some (int v) else None))"

text \<open>\<^verbatim>\<open>boost::to_lower\<close> in the classic locale.\<close>

definition to_lower_char :: "char \<Rightarrow> char" where
  "to_lower_char c =
     (if 65 \<le> (of_char c :: nat) \<and> (of_char c :: nat) \<le> 90
      then char_of ((of_char c :: nat) + 32) else c)"

definition to_lower :: "string \<Rightarrow> string" where
  "to_lower s = map to_lower_char s"

text \<open>
  \<^verbatim>\<open>f = length.find('/'); if (f++ != npos) length = length.substr(f); else length = "";\<close>
  keeps what follows the first slash.
\<close>

definition after_slash :: "string \<Rightarrow> string" where
  "after_slash s =
     (case dropWhile (\<lambda>c. c \<noteq> CHR ''/'') s of [] \<Rightarrow> [] | c # rest \<Rightarrow> rest)"

subsection \<open>The coordinator's data\<close>

record http_stream_object =
  m_stream :: http_stream_ptr
  m_request_range :: "int \<times> int"
  m_bytes_transferred :: int
  m_bytes_downloaded :: int
  m_last_request_time :: ptime

text \<open>
  The constructor \<^verbatim>\<open>http_stream_object()\<close>; the buffer \<^verbatim>\<open>m_buffer\<close> is never
  read or written by the coordinator and is left out.
\<close>

definition http_stream_object_ctor :: http_stream_object where
  "http_stream_object_ctor =
     \<lparr>m_stream = Null_stream,
      m_request_range = (0, 0),
      m_bytes_transferred = 0,
      m_bytes_downloaded = 0,
      m_last_request_time = None\<rparr>"

text \<open>
  The members of \<^verbatim>\<open>multi_download\<close>. \<open>m_timer\<close> is the expiry time of the deadline
  timer, in microseconds; \<open>m_storage\<close> is \<open>None\<close> while the scoped pointer is null.
\<close>

record multi_download =
  m_streams :: "http_stream_object list"
  m_final_url :: url
  m_accept_multi :: bool
  m_keep_alive :: bool
  m_file_size :: int
  m_settings :: settings
  m_timer :: int
  m_storage :: "storage_interface option"
  m_abort :: bool

text \<open>
  The constructor \<^verbatim>\<open>multi_download(io)\<close>. The timer is built with a duration of 0
  seconds, so it expires at the time \<open>t0\<close> of its construction. \<open>m_final_url\<close> and
  \<open>m_settings\<close> are default-constructed.
\<close>

definition multi_download_ctor :: "int \<Rightarrow> multi_download" where
  "multi_download_ctor t0 =
     \<lparr>m_streams = [],
      m_final_url = [],
      m_accept_multi = False,
      m_keep_alive = False,
      m_file_size = - 1,
      m_settings = settings_ctor,
      m_timer = t0 + seconds 0,
      m_storage = None,
      m_abort = False\<rparr>"

subsection \<open>\<^verbatim>\<open>open\<close>\<close>

text \<open>
  \<^verbatim>\<open>BOOST_ASSERT(m_storage)\<close> stops the program when the storage constructor returned
  a null pointer; that is the only way \<^verbatim>\<open>open\<close> does not return.
\<close>

datatype fault = Assertion_failed

text \<open>
  Lines 178 to 210: the file size. The pair is \<^verbatim>\<open>(m_accept_multi, m_file_size)\<close>
  before and after. The assignment to \<^verbatim>\<open>m_file_size\<close> happens only when
  \<^verbatim>\<open>lexical_cast\<close> has returned.
\<close>

definition probe_file_size :: "option_items \<Rightarrow> bool \<times> int \<Rightarrow> bool \<times> int" where
  "probe_file_size ro st =
     (let (accept_multi, file_size) = st in
      if accept_multi then
        let len = find_opt ro ''Content-Length'' [];
            (len, accept_multi) =
              (if len = [] then
                 let len = find_opt ro ''Content-Range'' len;
                     len = after_slash len
                 in (len, if len = [] then False else accept_multi)
               else (len, accept_multi))
        in if len \<noteq> [] then
             (case lexical_cast_int64 len of
                Some n \<Rightarrow> (accept_multi, n)
              | None \<Rightarrow> (False, file_size))
           else (accept_multi, file_size)
      else (accept_multi, file_size))"

text \<open>
  \<^verbatim>\<open>ptr->m_last_request_time = now\<close> for the object that element \<open>i\<close> of the vector
  points to.
\<close>

definition set_last_request_time ::
  "nat \<Rightarrow> int \<Rightarrow> http_stream_object list \<Rightarrow> http_stream_object list" where
  "set_last_request_time i now streams =
     streams[i := (streams ! i)\<lparr>m_last_request_time := Some now\<rparr>]"

text \<open>
  Lines 255 to 276: the loop \<^verbatim>\<open>for (int i = 1; i < m_settings.m_connections_limit; i++)\<close>.
  The vector holds a pointer to \<^verbatim>\<open>p\<close>, so the assignment to \<^verbatim>\<open>p->m_last_request_time\<close>
  after \<^verbatim>\<open>push_back\<close> changes the element just pushed.
\<close>

function open_streams ::
  "int \<Rightarrow> int \<Rightarrow> url \<Rightarrow> option_items \<Rightarrow> http_stream_object list \<times> io_service
     \<Rightarrow> http_stream_object list \<times> io_service" where
  "open_streams i limit final_url req_opt (streams, io) =
     (if i < limit then
        let p = http_stream_object_ctor;
            (ptr, io) = new_http_stream io;
            io = emit (Request_options ptr req_opt) io;
            p = p\<lparr>m_stream := ptr\<rparr>;
            streams = streams @ [p];
            (now, io) = local_time io;
            streams = set_last_request_time (length streams - 1) now streams;
            io = emit (Async_open ptr final_url (nat i)) io
        in open_streams (i + 1) limit final_url req_opt (streams, io)
      else (streams, io))"
  by pat_completeness auto
termination
  by (relation "measure (\<lambda>(i, limit, final_url, req_opt, st). nat (limit - i))")
     (auto simp: new_http_stream_def local_time_def)

text \<open>
  \<^verbatim>\<open>open(const url &u, const settings &s, storage_constructor_type p = NULL)\<close>,
  block by block in the order of the source.

  Lines 139 to 156: the pool and the file size are reset, the first object and its
  stream are created and the stream is opened synchronously. The result carries the
  object \<^verbatim>\<open>obj\<close> and what the server answered.
\<close>

definition open_probe ::
  "url \<Rightarrow> multi_download \<times> io_service
     \<Rightarrow> (http_stream_object \<times> http_response) \<times> multi_download \<times> io_service" where
  "open_probe u st =
     (let (md, io) = st;
          md = md\<lparr>m_streams := []\<rparr>;
          md = md\<lparr>m_file_size := - 1\<rparr>;
          obj = http_stream_object_ctor;
          req_opt = [(''Range'', ''bytes=0-''), (''Connection'', ''keep-alive'')];
          (h, io) = new_http_stream io;
          obj = obj\<lparr>m_stream := h\<rparr>;
          io = emit (Request_options h req_opt) io;
          io = emit (Open_sync h u) io
      in ((obj, server io u), md, io))"

text \<open>Lines 163 to 219: the final URL, range support, the file size, keep-alive.\<close>

definition read_response :: "url \<Rightarrow> http_response \<Rightarrow> multi_download \<Rightarrow> multi_download" where
  "read_response u r md =
     (let location = resp_location r;
          md = md\<lparr>m_final_url := (if location \<noteq> [] then location else u)\<rparr>;
          status_code = find_opt (response_options r) ''_status_code'' [];
          md = md\<lparr>m_accept_multi := (if status_code \<noteq> ''206'' then False else True)\<rparr>;
          (accept_multi, file_size) =
            probe_file_size (response_options r) (m_accept_multi md, m_file_size md);
          md = md\<lparr>m_accept_multi := accept_multi, m_file_size := file_size\<rparr>;
          keep_alive = to_lower (find_opt (response_options r) ''Connection'' [])
      in md\<lparr>m_keep_alive := (if keep_alive = ''keep-alive'' then True else False)\<rparr>)"

text \<open>Lines 221 to 225: the storage object; the assertion of line 226 is in \<open>open_md\<close>.\<close>

definition create_storage :: "storage_constructor_type \<Rightarrow> multi_download \<Rightarrow> multi_download" where
  "create_storage p md =
     (case p of
        None \<Rightarrow> md\<lparr>m_storage := default_storage_constructor\<rparr>
      | Some f \<Rightarrow> md\<lparr>m_storage := f\<rparr>)"

text \<open>Lines 228 to 235: the settings and their defaults.\<close>

definition save_settings :: "settings \<Rightarrow> multi_download \<Rightarrow> multi_download" where
  "save_settings s md =
     (let md = md\<lparr>m_settings := s\<rparr>;
          md = (if m_connections_limit (m_settings md) = - 1
                then md\<lparr>m_settings :=
                       (m_settings md)\<lparr>m_connections_limit := default_connections_limit\<rparr>\<rparr>
                else md)
      in if m_piece_size (m_settings md) = - 1 \<and> m_file_size md \<noteq> - 1
         then md\<lparr>m_settings := (m_settings md)\<lparr>m_piece_size := default_piece_size\<rparr>\<rparr>
         else md)"

text \<open>
  Lines 237 to 292: the first object joins the pool, the other connections are opened,
  the first one sends its request and the timer is started. \<^verbatim>\<open>obj\<close> is element 0
  of the vector, which line 142 had emptied.
\<close>

definition start_streams ::
  "http_stream_object \<Rightarrow> multi_download \<times> io_service \<Rightarrow> multi_download \<times> io_service" where
  "start_streams obj st =
     (let (md, io) = st;
          h = m_stream obj;
          io = (if m_keep_alive md then emit (Clear h) io else io);
          md = md\<lparr>m_streams := m_streams md @ [obj]\<rparr>;
          req_opt = (if m_keep_alive md then [(''Connection'', ''keep-alive'')]
                     else [(''Connection'', ''close'')]);
          md = md\<lparr>m_abort := False\<rparr>;
          (streams, io) =
            (if m_accept_multi md
             then open_streams 1 (m_connections_limit (m_settings md))
                    (m_final_url md) req_opt (m_streams md, io)
             else (m_streams md, io));
          md = md\<lparr>m_streams := streams\<rparr>;
          (now, io) = local_time io;
          md = md\<lparr>m_streams := set_last_request_time 0 now (m_streams md)\<rparr>;
          io = emit (Async_request h req_opt 0) io;
          io = emit (Async_wait (m_timer md)) io
      in (md, io))"

text \<open>
  The function itself. \<open>Inr (ec, md, io)\<close> is a return of \<open>ec\<close>; line 158 returns
  early when the probe failed.
\<close>

definition open_md ::
  "url \<Rightarrow> settings \<Rightarrow> storage_constructor_type \<Rightarrow> multi_download \<times> io_service
     \<Rightarrow> fault + error_code \<times> multi_download \<times> io_service" where
  "open_md u s p st =
     (let ((obj, r), md, io) = open_probe u st;
          ec = resp_ec r
      in if ec \<noteq> 0 then Inr (ec, md, io)
         else
           let md = read_response u r md;
               md = create_storage p md
           in if m_storage md = None then Inl Assertion_failed
              else
                let md = save_settings s md;
                    (md, io) = start_streams obj (md, io)
                in Inr (ec, md, io))"

text \<open>\<^verbatim>\<open>open(const url &u, boost::system::error_code &ec)\<close>: the result carries \<open>ec\<close>.\<close>

definition open_ec ::
  "url \<Rightarrow> multi_download \<times> io_service \<Rightarrow> fault + error_code \<times> multi_download \<times> io_service" where
  "open_ec u st = (let s = settings_ctor in open_md u s None st)"

subsection \<open>\<^verbatim>\<open>close\<close>, the handlers and \<^verbatim>\<open>on_tick\<close>\<close>

definition close :: "multi_download \<times> io_service \<Rightarrow> multi_download \<times> io_service" where
  "close st = (let (md, io) = st in (md\<lparr>m_abort := True\<rparr>, io))"

text \<open>
  The three handlers only write a line to \<^verbatim>\<open>std::cerr\<close>; they read and change no
  member and call no collaborator.
\<close>

definition handle_open ::
  "nat \<Rightarrow> http_stream_ptr \<Rightarrow> error_code \<Rightarrow> multi_download \<times> io_service
     \<Rightarrow> multi_download \<times> io_service" where
  "handle_open index stream_ptr ec st = st"

definition handle_read ::
  "nat \<Rightarrow> http_stream_ptr \<Rightarrow> int \<Rightarrow> error_code \<Rightarrow> multi_download \<times> io_service
     \<Rightarrow> multi_download \<times> io_service" where
  "handle_read index stream_ptr bytes_transferred ec st = st"

definition handle_request ::
  "nat \<Rightarrow> http_stream_ptr \<Rightarrow> error_code \<Rightarrow> multi_download \<times> io_service
     \<Rightarrow> multi_download \<times> io_service" where
  "handle_request index stream_ptr ec st = st"

text \<open>
  \<^verbatim>\<open>duration > seconds(m_time_out)\<close> for \<^verbatim>\<open>duration = now - ptr->m_last_request_time\<close>. A difference with
  \<^verbatim>\<open>not_a_date_time\<close> is not a duration and compares greater than nothing.
\<close>

definition timed_out :: "int \<Rightarrow> int \<Rightarrow> ptime \<Rightarrow> bool" where
  "timed_out time_out now last_request_time =
     (case last_request_time of None \<Rightarrow> False | Some t \<Rightarrow> now - t > seconds time_out)"

text \<open>The body of the loop of \<^verbatim>\<open>on_tick\<close> (lines 337 to 354) for index \<open>i\<close>.\<close>

definition tick_stream ::
  "nat \<Rightarrow> multi_download \<times> io_service \<Rightarrow> multi_download \<times> io_service" where
  "tick_stream i st =
     (let (md, io) = st;
          ptr = m_streams md ! i;
          (now, io) = local_time io
      in if timed_out (m_time_out (m_settings md)) now (m_last_request_time ptr) then
           let io = emit (Close (m_stream ptr)) io;
               (fresh, io) = new_http_stream io;
               ptr = ptr\<lparr>m_stream := fresh\<rparr>;
               (now, io) = local_time io;
               ptr = ptr\<lparr>m_last_request_time := Some now\<rparr>;
               io = emit (Async_open (m_stream ptr) (m_final_url md) i) io
           in (md\<lparr>m_streams := (m_streams md)[i := ptr]\<rparr>, io)
         else (md, io))"

function tick_loop ::
  "nat \<Rightarrow> multi_download \<times> io_service \<Rightarrow> multi_download \<times> io_service" where
  "tick_loop i st =
     (if i < length (m_streams (fst st)) then tick_loop (i + 1) (tick_stream i st) else st)"
  by pat_completeness auto
termination
  by (relation "measure (\<lambda>(i, st). length (m_streams (fst st)) - i)")
     (auto simp: tick_stream_def Let_def local_time_def new_http_stream_def
           split: prod.splits)

definition on_tick :: "multi_download \<times> io_service \<Rightarrow> multi_download \<times> io_service" where
  "on_tick st =
     (let (md, io) = st;
          (md, io) =
            (if \<not> m_abort md then
               let md = md\<lparr>m_timer := m_timer md + seconds 1\<rparr>;
                   io = emit (Async_wait (m_timer md)) io
               in (md, io)
             else (md, io))
      in tick_loop 0 (md, io))"

subsection \<open>What \<^verbatim>\<open>open\<close> does for the additional connections\<close>

text \<open>
  The \<open>k\<close>-th pass of the loop of \<^verbatim>\<open>open\<close>, counted from 0 and started in \<open>io\<close>
  with index \<open>i\<close>: the object it adds to the pool and the operations it issues.
\<close>

definition opened_stream :: "io_service \<Rightarrow> nat \<Rightarrow> http_stream_object" where
  "opened_stream io k =
     http_stream_object_ctor
       \<lparr>m_stream := Stream (next_stream io + k),
        m_last_request_time := Some (clock io (reads io + k))\<rparr>"

definition opened_events :: "io_service \<Rightarrow> url \<Rightarrow> option_items \<Rightarrow> int \<Rightarrow> nat \<Rightarrow> event list" where
  "opened_events io final_url req_opt i k =
     [Request_options (Stream (next_stream io + k)) req_opt,
      Async_open (Stream (next_stream io + k)) final_url (nat i + k)]"

text \<open>
  The coordinator on which \<open>start_streams\<close> runs when the probe of \<open>u\<close> has
  succeeded and the storage was created.
\<close>

definition probed :: "url \<Rightarrow> settings \<Rightarrow> storage_constructor_type \<Rightarrow> multi_download
    \<Rightarrow> io_service \<Rightarrow> multi_download" where
  "probed u s p md io =
     save_settings s (create_storage p
       (read_response u (server io u) (md\<lparr>m_streams := [], m_file_size := - 1\<rparr>)))"

text \<open>The operations that open a connection asynchronously.\<close>

fun is_async_open :: "event \<Rightarrow> bool" where
  "is_async_open (Async_open s u i) = True"
| "is_async_open e = False"

text \<open>
  The text that lines 181 to 190 leave in \<^verbatim>\<open>length\<close>: the \<^verbatim>\<open>Content-Length\<close>
  header, or, when it is absent or empty, what follows the first slash of the
  \<^verbatim>\<open>Content-Range\<close> header.
\<close>

definition size_text :: "option_items \<Rightarrow> string" where
  "size_text ro =
     (let len = find_opt ro ''Content-Length'' []
      in if len = [] then after_slash (find_opt ro ''Content-Range'' len) else len)"

subsection \<open>What a tick does, slot by slot\<close>

text \<open>
  The loop of \<^verbatim>\<open>on_tick\<close> reads the clock once to check a slot and once more when it
  resets the slot, and it creates one stream for every slot it resets. So the reading
  that slot \<open>i\<close> is checked against, and the number of the stream it would get, depend
  on the slots before it: \<open>reads_before md io i\<close> is the number of readings taken
  when the loop reaches \<open>i\<close>, \<open>streams_before md io i\<close> the number of streams
  created by then.
\<close>

primrec reads_before :: "multi_download \<Rightarrow> io_service \<Rightarrow> nat \<Rightarrow> nat" where
  "reads_before md io 0 = reads io"
| "reads_before md io (Suc i) =
     (if timed_out (m_time_out (m_settings md)) (clock io (reads_before md io i))
           (m_last_request_time (m_streams md ! i))
      then reads_before md io i + 2 else reads_before md io i + 1)"

primrec streams_before :: "multi_download \<Rightarrow> io_service \<Rightarrow> nat \<Rightarrow> nat" where
  "streams_before md io 0 = next_stream io"
| "streams_before md io (Suc i) =
     (if timed_out (m_time_out (m_settings md)) (clock io (reads_before md io i))
           (m_last_request_time (m_streams md ! i))
      then Suc (streams_before md io i) else streams_before md io i)"

text \<open>
  Slot \<open>i\<close> has timed out when the loop checks it; the object it then becomes; the
  operations the loop issues for it.
\<close>

definition slot_timed_out :: "multi_download \<Rightarrow> io_service \<Rightarrow> nat \<Rightarrow> bool" where
  "slot_timed_out md io i =
     timed_out (m_time_out (m_settings md)) (clock io (reads_before md io i))
       (m_last_request_time (m_streams md ! i))"

definition reset_stream :: "multi_download \<Rightarrow> io_service \<Rightarrow> nat \<Rightarrow> http_stream_object" where
  "reset_stream md io i =
     (m_streams md ! i)
       \<lparr>m_stream := Stream (streams_before md io i),
        m_last_request_time := Some (clock io (Suc (reads_before md io i)))\<rparr>"

definition slot_events :: "multi_download \<Rightarrow> io_service \<Rightarrow> nat \<Rightarrow> event list" where
  "slot_events md io i =
     (if slot_timed_out md io i
      then [Close (m_stream (m_streams md ! i)),
            Async_open (Stream (streams_before md io i)) (m_final_url md) i]
      else [])"

text \<open>The coordinator and the \<^verbatim>\<open>io_service\<close> when the loop reaches index \<open>i\<close>.\<close>

definition ticked_upto :: "nat \<Rightarrow> multi_download \<times> io_service \<Rightarrow> multi_download \<times> io_service" where
  "ticked_upto i st =
     (let (md, io) = st in
      (md\<lparr>m_streams :=
            map (\<lambda>j. if j < i \<and> slot_timed_out md io j then reset_stream md io j
                      else m_streams md ! j)
              [0..<length (m_streams md)]\<rparr>,
       io\<lparr>reads := reads_before md io i,
          next_stream := streams_before md io i,
          events := events io @ concat (map (slot_events md io) [0..<i])\<rparr>))"

subsection \<open>A server and a coordinator to run the model on\<close>

text \<open>
  A server that answers every probe with \<^verbatim>\<open>206\<close>, a length of 100 bytes and
  \<^verbatim>\<open>Connection: Keep-Alive\<close>; a clock that advances by 1.1 seconds from one reading
  to the next.
\<close>

definition ranged_response :: http_response where
  "ranged_response =
     \<lparr>resp_ec = 0, resp_location = [],
      response_options =
        [(''_status_code'', ''206''), (''Content-Length'', ''100''),
         (''Connection'', ''Keep-Alive'')]\<rparr>"

definition ranged_io :: io_service where
  "ranged_io =
     \<lparr>server = (\<lambda>u. ranged_response), clock = (\<lambda>k. int k * 1100000),
      reads = 0, next_stream = 0, events = []\<rparr>"

text \<open>
  A server without range support: \<^verbatim>\<open>200\<close>, 12 bytes, no \<^verbatim>\<open>Connection\<close> header;
  a clock that advances by one second from one reading to the next.
\<close>

definition plain_response :: http_response where
  "plain_response =
     \<lparr>resp_ec = 0, resp_location = [],
      response_options = [(''_status_code'', ''200''), (''Content-Length'', ''12'')]\<rparr>"

definition plain_io :: io_service where
  "plain_io =
     \<lparr>server = (\<lambda>u. plain_response), clock = (\<lambda>k. int k * 1000000),
      reads = 0, next_stream = 0, events = []\<rparr>"

text \<open>
  The coordinator and the \<^verbatim>\<open>io_service\<close> after \<^verbatim>\<open>open\<close> on that server (lemma
  \<open>opened_plain\<close> below): one connection in the pool, its request sent, the timer
  started.
\<close>

definition plain_md :: multi_download where
  "plain_md =
     \<lparr>m_streams =
        [\<lparr>m_stream = Stream 0, m_request_range = (0, 0), m_bytes_transferred = 0,
          m_bytes_downloaded = 0, m_last_request_time = Some 0\<rparr>],
      m_final_url = ''http://x/f'', m_accept_multi = False, m_keep_alive = False,
      m_file_size = - 1,
      m_settings =
        \<lparr>m_download_rate_limit = - 1, m_connections_limit = 5, m_piece_size = - 1,
         m_time_out = 11, m_downlad_mode = dispersion_mode, m_meta_file = []\<rparr>,
      m_timer = 0, m_storage = Some File_storage, m_abort = False\<rparr>"

definition plain_opened :: "multi_download \<times> io_service" where
  "plain_opened =
     (plain_md,
      plain_io\<lparr>reads := 1, next_stream := 1,
         events :=
           [Request_options (Stream 0) [(''Range'', ''bytes=0-''), (''Connection'', ''keep-alive'')],
            Open_sync (Stream 0) ''http://x/f'',
            Async_request (Stream 0) [(''Connection'', ''close'')] 0,
            Async_wait 0]\<rparr>)"

text \<open>
  A pool of two connections, the first last used at 0 seconds and the second at 5,
  at a moment when the clock shows 12 seconds.
\<close>

definition two_slots :: "multi_download \<times> io_service" where
  "two_slots =
     (plain_md\<lparr>m_streams :=
         [\<lparr>m_stream = Stream 0, m_request_range = (0, 0), m_bytes_transferred = 0,
           m_bytes_downloaded = 0, m_last_request_time = Some 0\<rparr>,
          \<lparr>m_stream = Stream 1, m_request_range = (0, 0), m_bytes_transferred = 0,
           m_bytes_downloaded = 0, m_last_request_time = Some 5000000\<rparr>]\<rparr>,
      plain_io\<lparr>reads := 12, next_stream := 2\<rparr>)"

text \<open>
  Three more answers to the probe: a refused connection, a \<^verbatim>\<open>206\<close> without any
  header, and a \<^verbatim>\<open>206\<close> whose \<^verbatim>\<open>Content-Length\<close> reads \<^verbatim>\<open>-1\<close>.
\<close>

definition refused_response :: http_response where
  "refused_response = \<lparr>resp_ec = 111, resp_location = [], response_options = []\<rparr>"

definition bare_206_response :: http_response where
  "bare_206_response =
     \<lparr>resp_ec = 0, resp_location = [], response_options = [(''_status_code'', ''206'')]\<rparr>"

definition minus_one_response :: http_response where
  "minus_one_response =
     \<lparr>resp_ec = 0, resp_location = [],
      response_options = [(''_status_code'', ''206''), (''Content-Length'', ''-1'')]\<rparr>"

section \<open>Properties\<close>

declare open_streams.simps [simp del] tick_loop.simps [simp del]

subsection \<open>The blocks of \<^verbatim>\<open>open\<close>\<close>

lemma open_probe_eq:
  "open_probe u (md, io) =
     ((http_stream_object_ctor\<lparr>m_stream := Stream (next_stream io)\<rparr>, server io u),
      md\<lparr>m_streams := [], m_file_size := - 1\<rparr>,
      io\<lparr>next_stream := Suc (next_stream io),
         events := events io @
           [Request_options (Stream (next_stream io))
              [(''Range'', ''bytes=0-''), (''Connection'', ''keep-alive'')],
            Open_sync (Stream (next_stream io)) u]\<rparr>)"
  by (simp add: open_probe_def new_http_stream_def emit_def)

lemma read_response_frame:
  "m_streams (read_response u r md) = m_streams md"
  "m_settings (read_response u r md) = m_settings md"
  "m_timer (read_response u r md) = m_timer md"
  "m_storage (read_response u r md) = m_storage md"
  "m_abort (read_response u r md) = m_abort md"
  by (simp_all add: read_response_def Let_def split: prod.splits)

lemma read_response_final_url:
  "m_final_url (read_response u r md) = (if resp_location r \<noteq> [] then resp_location r else u)"
  by (simp add: read_response_def Let_def split: prod.splits)

lemma read_response_keep_alive:
  "m_keep_alive (read_response u r md) =
     (to_lower (find_opt (response_options r) ''Connection'' []) = ''keep-alive'')"
  by (simp add: read_response_def Let_def split: prod.splits)

lemma read_response_size:
  "(m_accept_multi (read_response u r md), m_file_size (read_response u r md)) =
     probe_file_size (response_options r)
       (find_opt (response_options r) ''_status_code'' [] = ''206'', m_file_size md)"
  by (simp add: read_response_def Let_def split: prod.splits)

lemma create_storage_frame:
  "m_streams (create_storage p md) = m_streams md"
  "m_settings (create_storage p md) = m_settings md"
  "m_timer (create_storage p md) = m_timer md"
  "m_abort (create_storage p md) = m_abort md"
  "m_final_url (create_storage p md) = m_final_url md"
  "m_accept_multi (create_storage p md) = m_accept_multi md"
  "m_keep_alive (create_storage p md) = m_keep_alive md"
  "m_file_size (create_storage p md) = m_file_size md"
  by (simp_all add: create_storage_def split: option.splits)

lemma create_storage_value:
  "m_storage (create_storage p md) = (case p of None \<Rightarrow> Some File_storage | Some f \<Rightarrow> f)"
  by (simp add: create_storage_def default_storage_constructor_def split: option.splits)

lemma save_settings_frame:
  "m_streams (save_settings s md) = m_streams md"
  "m_storage (save_settings s md) = m_storage md"
  "m_timer (save_settings s md) = m_timer md"
  "m_abort (save_settings s md) = m_abort md"
  "m_final_url (save_settings s md) = m_final_url md"
  "m_accept_multi (save_settings s md) = m_accept_multi md"
  "m_keep_alive (save_settings s md) = m_keep_alive md"
  "m_file_size (save_settings s md) = m_file_size md"
  by (simp_all add: save_settings_def Let_def)

lemma save_settings_value:
  "m_settings (save_settings s md) =
     s\<lparr>m_connections_limit :=
         (if m_connections_limit s = - 1 then 5 else m_connections_limit s),
       m_piece_size :=
         (if m_piece_size s = - 1 \<and> m_file_size md \<noteq> - 1 then 32768 else m_piece_size s)\<rparr>"
  by (simp add: save_settings_def Let_def default_connections_limit_def default_piece_size_def)

lemma start_streams_frame:
  "m_settings (fst (start_streams obj (md, io))) = m_settings md"
  "m_storage (fst (start_streams obj (md, io))) = m_storage md"
  "m_timer (fst (start_streams obj (md, io))) = m_timer md"
  "m_final_url (fst (start_streams obj (md, io))) = m_final_url md"
  "m_accept_multi (fst (start_streams obj (md, io))) = m_accept_multi md"
  "m_keep_alive (fst (start_streams obj (md, io))) = m_keep_alive md"
  "m_file_size (fst (start_streams obj (md, io))) = m_file_size md"
  "m_abort (fst (start_streams obj (md, io))) = False"
  by (simp_all add: start_streams_def Let_def split: prod.splits)

text \<open>The three ways \<open>open_md\<close> ends.\<close>

lemma open_md_cases:
  "open_md u s p (md, io) =
     (if resp_ec (server io u) \<noteq> 0
      then Inr (resp_ec (server io u), fst (snd (open_probe u (md, io))),
                snd (snd (open_probe u (md, io))))
      else if p = Some None then Inl Assertion_failed
      else Inr (0, start_streams (fst (fst (open_probe u (md, io))))
                     (probed u s p md io, snd (snd (open_probe u (md, io))))))"
  by (cases p)
     (auto simp: open_md_def open_probe_eq probed_def Let_def create_storage_value
           split: prod.splits)

lemma open_md_success:
  assumes "open_md u s p (md, io) = Inr (0, md', io')"
  shows "resp_ec (server io u) = 0" and "p \<noteq> Some None"
    and "md' = fst (start_streams (fst (fst (open_probe u (md, io))))
                     (probed u s p md io, snd (snd (open_probe u (md, io)))))"
    and "io' = snd (start_streams (fst (fst (open_probe u (md, io))))
                     (probed u s p md io, snd (snd (open_probe u (md, io)))))"
  using assms by (auto simp: open_md_cases split: if_splits)

lemma probed_fields:
  "m_settings (probed u s p md io) =
     s\<lparr>m_connections_limit :=
         (if m_connections_limit s = - 1 then 5 else m_connections_limit s),
       m_piece_size :=
         (if m_piece_size s = - 1 \<and> m_file_size (probed u s p md io) \<noteq> - 1 then 32768
          else m_piece_size s)\<rparr>"
  "m_streams (probed u s p md io) = []"
  "m_timer (probed u s p md io) = m_timer md"
  "m_final_url (probed u s p md io) =
     (if resp_location (server io u) \<noteq> [] then resp_location (server io u) else u)"
  "m_keep_alive (probed u s p md io) =
     (to_lower (find_opt (response_options (server io u)) ''Connection'' []) = ''keep-alive'')"
  "(m_accept_multi (probed u s p md io), m_file_size (probed u s p md io)) =
     probe_file_size (response_options (server io u))
       (find_opt (response_options (server io u)) ''_status_code'' [] = ''206'', - 1)"
  by (simp_all add: probed_def save_settings_value save_settings_frame create_storage_frame
        read_response_frame read_response_final_url read_response_keep_alive
        read_response_size [where md = "md\<lparr>m_streams := [], m_file_size := - 1\<rparr>", simplified])

lemma open_md_success_fields:
  assumes "open_md u s p (md, io) = Inr (0, md', io')"
  shows "(m_accept_multi md', m_file_size md') =
           probe_file_size (response_options (server io u))
             (find_opt (response_options (server io u)) ''_status_code'' [] = ''206'', - 1)"
    and "m_keep_alive md' =
           (to_lower (find_opt (response_options (server io u)) ''Connection'' []) =
            ''keep-alive'')"
    and "m_final_url md' =
           (if resp_location (server io u) \<noteq> [] then resp_location (server io u) else u)"
    and "m_settings md' = m_settings (probed u s p md io)"
    and "m_timer md' = m_timer md"
    and "m_abort md' = False"
  unfolding open_md_success(3) [OF assms] start_streams_frame
  by (simp_all add: probed_fields(3-6))

text \<open>The loop of \<^verbatim>\<open>open\<close> in closed form.\<close>

lemma open_streams_step:
  "i < limit \<Longrightarrow>
   open_streams i limit final_url req_opt (streams, io) =
     open_streams (i + 1) limit final_url req_opt
       (streams @ [opened_stream io 0],
        io\<lparr>next_stream := Suc (next_stream io), reads := Suc (reads io),
           events := events io @ opened_events io final_url req_opt i 0\<rparr>)"
  by (subst open_streams.simps)
     (simp add: Let_def new_http_stream_def local_time_def emit_def set_last_request_time_def
        opened_stream_def opened_events_def nth_append)

lemma open_streams_eq:
  "0 \<le> i \<Longrightarrow>
   open_streams i limit final_url req_opt (streams, io) =
     (streams @ map (opened_stream io) [0..<nat (limit - i)],
      io\<lparr>reads := reads io + nat (limit - i),
         next_stream := next_stream io + nat (limit - i),
         events := events io @
           concat (map (opened_events io final_url req_opt i) [0..<nat (limit - i)])\<rparr>)"
proof (induction "nat (limit - i)" arbitrary: i streams io)
  case 0
  then have "\<not> i < limit" by simp
  with 0 show ?case
    by (subst open_streams.simps) simp
next
  case (Suc n)
  then have lt: "i < limit" and n: "n = nat (limit - (i + 1))" and i1: "0 \<le> i + 1"
    by simp_all
  let ?io = "io\<lparr>next_stream := Suc (next_stream io), reads := Suc (reads io),
           events := events io @ opened_events io final_url req_opt i 0\<rparr>"
  have shift: "[0..<Suc n] = 0 # map Suc [0..<n]"
    by (simp add: upt_conv_Cons map_Suc_upt del: upt_Suc)
  have a: "opened_stream ?io = (\<lambda>k. opened_stream io (Suc k))"
    by (simp add: opened_stream_def fun_eq_iff)
  have b: "opened_events ?io final_url req_opt (i + 1) =
           (\<lambda>k. opened_events io final_url req_opt i (Suc k))"
    using Suc.prems by (simp add: opened_events_def nat_add_distrib fun_eq_iff)
  have len: "nat (limit - i) = Suc n"
    using Suc.hyps(2) by simp
  show ?case
    unfolding open_streams_step [OF lt] Suc.hyps(1) [OF n i1] len shift
    by (simp add: a b n [symmetric] comp_def)
qed


lemma start_streams_eq:
  assumes "m_streams md = []"
  defines "n \<equiv> (if m_accept_multi md then nat (m_connections_limit (m_settings md) - 1) else 0)"
  shows "start_streams obj (md, io) =
     (md\<lparr>m_streams :=
           obj\<lparr>m_last_request_time := Some (clock io (reads io + n))\<rparr> #
           map (opened_stream io) [0..<n],
         m_abort := False\<rparr>,
      io\<lparr>reads := Suc (reads io + n),
         next_stream := next_stream io + n,
         events := events io @
           (if m_keep_alive md then [Clear (m_stream obj)] else []) @
           concat (map (opened_events io (m_final_url md)
                          (if m_keep_alive md then [(''Connection'', ''keep-alive'')]
                           else [(''Connection'', ''close'')]) 1) [0..<n]) @
           [Async_request (m_stream obj)
              (if m_keep_alive md then [(''Connection'', ''keep-alive'')]
               else [(''Connection'', ''close'')]) 0,
            Async_wait (m_timer md)]\<rparr>)"
proof -
  have a: "opened_stream (emit e io) = opened_stream io" for e
    by (simp add: opened_stream_def emit_def fun_eq_iff)
  have b: "opened_events (emit e io) = opened_events io" for e
    by (simp add: opened_events_def emit_def fun_eq_iff)
  show ?thesis
    using assms(1) unfolding n_def start_streams_def
    by (simp add: Let_def open_streams_eq a b local_time_def set_last_request_time_def)
       (simp add: emit_def)
qed

lemma lexical_cast_empty [simp]: "lexical_cast_int64 [] = None"
  by (simp add: lexical_cast_int64_def)

lemma probe_file_size_eq:
  "probe_file_size ro (a, fs) =
     (if a then (case lexical_cast_int64 (size_text ro) of
                   Some n \<Rightarrow> (True, n)
                 | None \<Rightarrow> (False, fs))
      else (False, fs))"
  by (simp add: probe_file_size_def size_text_def Let_def split: option.splits)

lemma open_md_returns_ok:
  assumes "resp_ec (server io u) = 0" and "p \<noteq> Some None"
  shows "\<exists>md' io'. open_md u s p (md, io) = Inr (0, md', io')"
  using assms by (simp add: open_md_cases)

lemma open_md_accept_size:
  assumes "open_md u s p (md, io) = Inr (0, md', io')"
  shows "(m_accept_multi md', m_file_size md') =
           (if find_opt (response_options (server io u)) ''_status_code'' [] = ''206''
            then (case lexical_cast_int64 (size_text (response_options (server io u))) of
                    Some n \<Rightarrow> (True, n)
                  | None \<Rightarrow> (False, - 1))
            else (False, - 1))"
  unfolding open_md_success_fields(1) [OF assms] probe_file_size_eq ..

lemma open_md_pool:
  assumes "open_md u s p (md, io) = Inr (0, md', io')"
  defines "n \<equiv> (if m_accept_multi md' then nat (m_connections_limit (m_settings md') - 1) else 0)"
  defines "ro \<equiv> (if m_keep_alive md' then [(''Connection'', ''keep-alive'')]
                  else [(''Connection'', ''close'')])"
  defines "io1 \<equiv> io\<lparr>next_stream := Suc (next_stream io)\<rparr>"
  shows "m_streams md' =
           http_stream_object_ctor
             \<lparr>m_stream := Stream (next_stream io),
              m_last_request_time := Some (clock io (reads io + n))\<rparr> #
           map (opened_stream io1) [0..<n]"
    and "events io' =
           events io @
           [Request_options (Stream (next_stream io))
              [(''Range'', ''bytes=0-''), (''Connection'', ''keep-alive'')],
            Open_sync (Stream (next_stream io)) u] @
           (if m_keep_alive md' then [Clear (Stream (next_stream io))] else []) @
           concat (map (opened_events io1 (m_final_url md') ro 1) [0..<n]) @
           [Async_request (Stream (next_stream io)) ro 0, Async_wait (m_timer md)]"
proof -
  let ?pr = "probed u s p md io"
  have f: "m_accept_multi md' = m_accept_multi ?pr" "m_settings md' = m_settings ?pr"
    "m_keep_alive md' = m_keep_alive ?pr" "m_final_url md' = m_final_url ?pr"
    unfolding open_md_success(3) [OF assms(1)] start_streams_frame by simp_all
  have os: "opened_stream (snd (snd (open_probe u (md, io)))) = opened_stream io1"
    by (simp add: open_probe_eq opened_stream_def io1_def fun_eq_iff)
  have oe: "opened_events (snd (snd (open_probe u (md, io)))) = opened_events io1"
    by (simp add: open_probe_eq opened_events_def io1_def fun_eq_iff)
  show "m_streams md' =
           http_stream_object_ctor
             \<lparr>m_stream := Stream (next_stream io),
              m_last_request_time := Some (clock io (reads io + n))\<rparr> #
           map (opened_stream io1) [0..<n]"
    unfolding n_def f
    unfolding open_md_success(3) [OF assms(1)] start_streams_eq [OF probed_fields(2)] os
    by (simp add: open_probe_eq)
  show "events io' =
           events io @
           [Request_options (Stream (next_stream io))
              [(''Range'', ''bytes=0-''), (''Connection'', ''keep-alive'')],
            Open_sync (Stream (next_stream io)) u] @
           (if m_keep_alive md' then [Clear (Stream (next_stream io))] else []) @
           concat (map (opened_events io1 (m_final_url md') ro 1) [0..<n]) @
           [Async_request (Stream (next_stream io)) ro 0, Async_wait (m_timer md)]"
    unfolding n_def ro_def f
    unfolding open_md_success(4) [OF assms(1)] start_streams_eq [OF probed_fields(2)] oe
    by (simp add: open_probe_eq probed_fields(3))
qed

lemma filter_opened_events:
  "filter is_async_open (concat (map (opened_events io1 final_url ro i) [0..<n])) =
     map (\<lambda>k. Async_open (Stream (next_stream io1 + k)) final_url (nat i + k)) [0..<n]"
  by (induction n) (simp_all add: opened_events_def)

text \<open>What \<^verbatim>\<open>open\<close> reads from the answer with range support.\<close>

lemma ranged_probe:
  assumes "open_md u s p (md, io) = Inr (0, md', io')" and "server io u = ranged_response"
  shows "m_accept_multi md'" and "m_file_size md' = 100" and "m_keep_alive md'"
proof -
  have "(m_accept_multi md', m_file_size md') = (True, 100)"
    unfolding open_md_accept_size [OF assms(1)] assms(2)
    by (simp add: ranged_response_def find_opt_def size_text_def lexical_cast_int64_def
          lcast_ret_unsigned_def is_digit_def)
  then show "m_accept_multi md'" and "m_file_size md' = 100"
    by simp_all
  show "m_keep_alive md'"
    unfolding open_md_success_fields(2) [OF assms(1)] assms(2)
    by (simp add: ranged_response_def find_opt_def to_lower_def to_lower_char_def char_of_def
          bit_Suc_0_iff)
qed

subsection \<open>The settings that \<^verbatim>\<open>open\<close> stores\<close>

text \<open>
  C9. When \<^verbatim>\<open>open\<close> has returned success, the stored settings are the ones passed in,
  except that a connection limit of -1 has become 5 and that a piece size of -1 has
  become 32768 if the file size is known (not -1). Every other field, and these two
  fields in every other case, are as passed in.
\<close>

theorem open_stores_settings:
  assumes "open_md u s p st = Inr (ec, md', io')" and "ec = 0"
  shows "m_settings md' =
         s\<lparr>m_connections_limit :=
             (if m_connections_limit s = - 1 then 5 else m_connections_limit s),
           m_piece_size :=
             (if m_piece_size s = - 1 \<and> m_file_size md' \<noteq> - 1 then 32768
              else m_piece_size s)\<rparr>"
proof -
  obtain md io where st: "st = (md, io)" by (cases st)
  have md': "md' = fst (start_streams (fst (fst (open_probe u (md, io))))
                     (probed u s p md io, snd (snd (open_probe u (md, io)))))"
    using assms open_md_success(3) unfolding st by blast
  show ?thesis
    unfolding md' start_streams_frame by (rule probed_fields(1))
qed

theorem open_stores_settings_witness:
  "\<exists>md' io'. open_md ''http://x/f'' settings_ctor None (multi_download_ctor 0, ranged_io)
                = Inr (0, md', io') \<and>
     m_file_size md' = 100 \<and>
     m_settings md' =
       \<lparr>m_download_rate_limit = - 1, m_connections_limit = 5, m_piece_size = 32768,
        m_time_out = 11, m_downlad_mode = dispersion_mode, m_meta_file = []\<rparr>"
proof -
  let ?st = "(multi_download_ctor 0, ranged_io)"
  have "\<exists>md' io'. open_md ''http://x/f'' settings_ctor None ?st = Inr (0, md', io')"
    by (simp add: open_md_cases ranged_io_def ranged_response_def)
  then obtain md' io' where
    h: "open_md ''http://x/f'' settings_ctor None ?st = Inr (0, md', io')"
    by blast
  have "(m_accept_multi md', m_file_size md') = (True, 100)"
    unfolding open_md_success_fields(1) [OF h]
    by (simp add: ranged_io_def ranged_response_def probe_file_size_def find_opt_def
          lexical_cast_int64_def lcast_ret_unsigned_def is_digit_def)
  then have fs: "m_file_size md' = 100"
    by simp
  from open_stores_settings [OF h refl] fs
  have "m_settings md' =
       \<lparr>m_download_rate_limit = - 1, m_connections_limit = 5, m_piece_size = 32768,
        m_time_out = 11, m_downlad_mode = dispersion_mode, m_meta_file = []\<rparr>"
    by (simp add: settings_ctor_def)
  with h fs show ?thesis by blast
qed

subsection \<open>The pool that \<^verbatim>\<open>open\<close> builds\<close>

text \<open>
  C6, as the code has it. When \<^verbatim>\<open>open\<close> has returned success, slot 0 of the pool
  holds the stream of the probe, and that stream was cleared exactly when keep-alive was
  detected. With multi-connection support the loop runs for \<open>i = 1\<close> up to the
  connection limit, so it opens \<open>max 0 (limit - 1)\<close> additional slots and the pool holds
  \<open>max 1 limit\<close> slots: exactly \<open>limit\<close> whenever the limit is at least 1. Each
  additional slot \<open>k\<close> gets one \<^verbatim>\<open>async_open\<close>, on its own stream and with its own
  index, and there is no other \<^verbatim>\<open>async_open\<close>. Without multi-connection support the
  pool holds the probe's slot only. The connection limit is the stored one, after the
  default has replaced -1.
\<close>

theorem open_pool:
  assumes "open_md u s p (md, io) = Inr (0, md', io')"
  shows "let limit = m_connections_limit (m_settings md');
             new_events = drop (length (events io)) (events io')
         in int (length (m_streams md')) = (if m_accept_multi md' then max 1 limit else 1) \<and>
            m_stream (m_streams md' ! 0) = Stream (next_stream io) \<and>
            Open_sync (Stream (next_stream io)) u \<in> set new_events \<and>
            (Clear (Stream (next_stream io)) \<in> set new_events) = m_keep_alive md' \<and>
            int (length (filter is_async_open new_events)) =
              (if m_accept_multi md' then max 0 (limit - 1) else 0) \<and>
            filter is_async_open new_events =
              map (\<lambda>k. Async_open (m_stream (m_streams md' ! k)) (m_final_url md') k)
                [1..<length (m_streams md')]"
proof -
  define n where
    "n = (if m_accept_multi md' then nat (m_connections_limit (m_settings md') - 1) else 0)"
  define ro where
    "ro = (if m_keep_alive md' then [(''Connection'', ''keep-alive'')]
           else [(''Connection'', ''close'')])"
  define io1 where "io1 = io\<lparr>next_stream := Suc (next_stream io)\<rparr>"
  note pool = open_md_pool [OF assms, folded n_def ro_def io1_def]
  have len: "length (m_streams md') = Suc n"
    by (simp add: pool(1))
  have new: "drop (length (events io)) (events io') =
      [Request_options (Stream (next_stream io))
         [(''Range'', ''bytes=0-''), (''Connection'', ''keep-alive'')],
       Open_sync (Stream (next_stream io)) u] @
      (if m_keep_alive md' then [Clear (Stream (next_stream io))] else []) @
      concat (map (opened_events io1 (m_final_url md') ro 1) [0..<n]) @
      [Async_request (Stream (next_stream io)) ro 0, Async_wait (m_timer md)]"
    by (simp add: pool(2))
  have no_clear: "Clear h \<notin> set (concat (map (opened_events io1 (m_final_url md') ro 1) [0..<n]))"
    for h
    by (auto simp: opened_events_def)
  have opens: "filter is_async_open (drop (length (events io)) (events io')) =
      map (\<lambda>k. Async_open (Stream (next_stream io1 + k)) (m_final_url md') (Suc k)) [0..<n]"
    unfolding new by (simp add: filter_opened_events)
  have slots: "map (\<lambda>k. Async_open (m_stream (m_streams md' ! k)) (m_final_url md') k) [1..<Suc n] =
      map (\<lambda>k. Async_open (Stream (next_stream io1 + k)) (m_final_url md') (Suc k)) [0..<n]"
  proof -
    have "[1..<Suc n] = map Suc [0..<n]"
      by (simp add: map_Suc_upt)
    then show ?thesis
      by (simp add: pool(1) comp_def opened_stream_def del: upt_Suc)
  qed
  have l1: "int (length (m_streams md')) =
      (if m_accept_multi md' then max 1 (m_connections_limit (m_settings md')) else 1)"
    unfolding len n_def by simp
  have l2: "int (length (filter is_async_open (drop (length (events io)) (events io')))) =
      (if m_accept_multi md' then max 0 (m_connections_limit (m_settings md') - 1) else 0)"
    unfolding opens n_def by simp
  have s0: "m_stream (m_streams md' ! 0) = Stream (next_stream io)"
    by (simp add: pool(1))
  have op: "Open_sync (Stream (next_stream io)) u \<in> set (drop (length (events io)) (events io'))"
    unfolding new by simp
  have cl: "(Clear (Stream (next_stream io)) \<in> set (drop (length (events io)) (events io'))) =
      m_keep_alive md'"
    unfolding new using no_clear by simp
  show ?thesis
    unfolding Let_def using l1 l2 s0 op cl opens slots len by simp
qed

theorem open_pool_witness:
  "\<exists>md' io'. open_md ''http://x/f'' settings_ctor None (multi_download_ctor 0, ranged_io)
                = Inr (0, md', io') \<and>
     m_accept_multi md' \<and> m_connections_limit (m_settings md') = 5 \<and>
     length (m_streams md') = 5 \<and> m_stream (m_streams md' ! 0) = Stream 0 \<and>
     Clear (Stream 0) \<in> set (events io') \<and>
     length (filter is_async_open (events io')) = 4"
proof -
  let ?md = "multi_download_ctor 0"
  have srv: "server ranged_io ''http://x/f'' = ranged_response"
    by (simp add: ranged_io_def)
  have "resp_ec (server ranged_io ''http://x/f'') = 0"
    by (simp add: srv ranged_response_def)
  from open_md_returns_ok [OF this, of None settings_ctor ?md]
  obtain md' io' where
    h: "open_md ''http://x/f'' settings_ctor None (?md, ranged_io) = Inr (0, md', io')"
    by auto
  note pr = ranged_probe [OF h srv]
  have limit: "m_connections_limit (m_settings md') = 5"
    unfolding open_md_success_fields(4) [OF h] probed_fields(1)
    by (simp add: settings_ctor_def)
  from open_pool [OF h] pr limit
  have "length (m_streams md') = 5 \<and> m_stream (m_streams md' ! 0) = Stream 0 \<and>
     Clear (Stream 0) \<in> set (events io') \<and>
     length (filter is_async_open (events io')) = 4"
    by (simp add: Let_def ranged_io_def)
  with h pr limit show ?thesis
    by blast
qed

text \<open>
  C6 as stated fails for a connection limit below 1: with a limit of 0 and range
  support the pool still holds the probe's slot, one slot and not 0, and no additional
  slot is opened rather than -1 of them.
\<close>

theorem open_pool_limit_zero:
  "case open_md ''http://x/f'' (settings_ctor\<lparr>m_connections_limit := 0\<rparr>) None
          (multi_download_ctor 0, ranged_io) of
     Inl f \<Rightarrow> False
   | Inr (ec, md', io') \<Rightarrow>
       ec = 0 \<and> m_accept_multi md' \<and> m_connections_limit (m_settings md') = 0 \<and>
       length (m_streams md') = 1 \<and> filter is_async_open (events io') = []"
proof -
  let ?md = "multi_download_ctor 0" and ?s = "settings_ctor\<lparr>m_connections_limit := 0\<rparr>"
  have srv: "server ranged_io ''http://x/f'' = ranged_response"
    by (simp add: ranged_io_def)
  have "resp_ec (server ranged_io ''http://x/f'') = 0"
    by (simp add: srv ranged_response_def)
  from open_md_returns_ok [OF this, of None ?s ?md]
  obtain md' io' where
    h: "open_md ''http://x/f'' ?s None (?md, ranged_io) = Inr (0, md', io')"
    by auto
  note pr = ranged_probe [OF h srv]
  have limit: "m_connections_limit (m_settings md') = 0"
    unfolding open_md_success_fields(4) [OF h] probed_fields(1)
    by (simp add: settings_ctor_def)
  have "length (m_streams md') = 1"
    unfolding open_md_pool(1) [OF h] using pr limit by simp
  moreover have "filter is_async_open (events io') = []"
    unfolding open_md_pool(2) [OF h] using pr limit by (simp add: ranged_io_def)
  ultimately show ?thesis
    using pr limit by (simp add: h)
qed

subsection \<open>The overload without settings\<close>

text \<open>
  C10. For every URL, \<^verbatim>\<open>open(u, ec)\<close> is \<^verbatim>\<open>open(u, s)\<close> for the default-constructed
  settings \<open>s\<close> (rate limit -1, connection limit -1, piece size -1, time-out 11,
  dispersion mode, empty meta file path) and no storage constructor: same error code,
  same coordinator, same operations on the collaborators.
\<close>

theorem open_ec_default_settings:
  "open_ec u st =
     open_md u
       \<lparr>m_download_rate_limit = - 1, m_connections_limit = - 1, m_piece_size = - 1,
        m_time_out = 11, m_downlad_mode = dispersion_mode, m_meta_file = []\<rparr>
       None st"
  by (simp add: open_ec_def settings_ctor_def)

subsection \<open>The loop of \<^verbatim>\<open>on_tick\<close>\<close>

lemma ticked_upto_0: "ticked_upto 0 (md, io) = (md, io)"
  by (simp add: ticked_upto_def map_nth)

lemma ticked_upto_step:
  assumes "i < length (m_streams md)"
  shows "tick_stream i (ticked_upto i (md, io)) = ticked_upto (Suc i) (md, io)"
proof -
  let ?n = "length (m_streams md)"
  let ?f = "\<lambda>k j. if j < k \<and> slot_timed_out md io j then reset_stream md io j
                   else m_streams md ! j"
  have upd: "(map (?f i) [0..<?n])[i := reset_stream md io i] = map (?f (Suc i)) [0..<?n]"
    if "slot_timed_out md io i"
    using that assms by (intro nth_equalityI) (auto simp: nth_list_update less_Suc_eq)
  have same: "map (?f i) [0..<?n] = map (?f (Suc i)) [0..<?n]"
    if "\<not> slot_timed_out md io i"
    using that by (auto simp: less_Suc_eq)
  show ?thesis
  proof (cases "slot_timed_out md io i")
    case True
    with assms upd [OF True] show ?thesis
      unfolding ticked_upto_def tick_stream_def
      by (simp add: Let_def local_time_def new_http_stream_def emit_def slot_events_def
            slot_timed_out_def [symmetric] reset_stream_def [symmetric])
  next
    case False
    with assms same [OF False] show ?thesis
      unfolding ticked_upto_def tick_stream_def
      by (simp add: Let_def local_time_def new_http_stream_def emit_def slot_events_def
            slot_timed_out_def [symmetric])
  qed
qed

lemma length_ticked_upto [simp]:
  "length (m_streams (fst (ticked_upto i (md, io)))) = length (m_streams md)"
  by (simp add: ticked_upto_def)

lemma tick_loop_ticked_upto:
  "i \<le> length (m_streams md) \<Longrightarrow>
   tick_loop i (ticked_upto i (md, io)) = ticked_upto (length (m_streams md)) (md, io)"
proof (induction "length (m_streams md) - i" arbitrary: i)
  case 0
  then show ?case by (subst tick_loop.simps) simp
next
  case (Suc k)
  then have lt: "i < length (m_streams md)" by simp
  with Suc have "tick_loop (Suc i) (ticked_upto (Suc i) (md, io)) =
      ticked_upto (length (m_streams md)) (md, io)"
    by simp
  with lt show ?case
    by (subst tick_loop.simps) (simp add: ticked_upto_step)
qed

lemma tick_loop_eq:
  "tick_loop 0 (md, io) = ticked_upto (length (m_streams md)) (md, io)"
  using tick_loop_ticked_upto [of 0 md io] by (simp add: ticked_upto_0)


lemma reads_before_cong:
  assumes "m_settings md1 = m_settings md" "m_streams md1 = m_streams md"
    "clock io1 = clock io" "reads io1 = reads io" "next_stream io1 = next_stream io"
  shows "reads_before md1 io1 i = reads_before md io i \<and>
         streams_before md1 io1 i = streams_before md io i"
  using assms by (induction i) simp_all

lemma slot_cong:
  assumes "m_settings md1 = m_settings md" "m_streams md1 = m_streams md"
    "m_final_url md1 = m_final_url md"
    "clock io1 = clock io" "reads io1 = reads io" "next_stream io1 = next_stream io"
  shows "slot_timed_out md1 io1 = slot_timed_out md io"
    and "reset_stream md1 io1 = reset_stream md io"
    and "slot_events md1 io1 = slot_events md io"
  using assms reads_before_cong [of md1 md io1 io]
  by (auto simp: slot_timed_out_def reset_stream_def slot_events_def fun_eq_iff)

text \<open>\<^verbatim>\<open>on_tick\<close> in closed form.\<close>

lemma on_tick_eq:
  "on_tick (md, io) =
     (md\<lparr>m_timer := (if m_abort md then m_timer md else m_timer md + seconds 1),
         m_streams :=
            map (\<lambda>j. if slot_timed_out md io j then reset_stream md io j
                      else m_streams md ! j)
              [0..<length (m_streams md)]\<rparr>,
      io\<lparr>reads := reads_before md io (length (m_streams md)),
         next_stream := streams_before md io (length (m_streams md)),
         events := events io @
           (if m_abort md then [] else [Async_wait (m_timer md + seconds 1)]) @
           concat (map (slot_events md io) [0..<length (m_streams md)])\<rparr>)"
proof (cases "m_abort md")
  case True
  then have "on_tick (md, io) = tick_loop 0 (md, io)"
    by (simp add: on_tick_def)
  then show ?thesis
    using True by (simp add: tick_loop_eq ticked_upto_def)
next
  case False
  let ?md = "md\<lparr>m_timer := m_timer md + seconds 1\<rparr>"
  let ?io = "emit (Async_wait (m_timer md + seconds 1)) io"
  have c: "slot_timed_out ?md ?io = slot_timed_out md io"
    "reset_stream ?md ?io = reset_stream md io"
    "slot_events ?md ?io = slot_events md io"
    by (rule slot_cong; simp add: emit_def)+
  have r: "reads_before ?md ?io (length (m_streams md)) = reads_before md io (length (m_streams md))"
    "streams_before ?md ?io (length (m_streams md)) = streams_before md io (length (m_streams md))"
    using reads_before_cong [of ?md md ?io io] by (simp_all add: emit_def)
  from False have "on_tick (md, io) = tick_loop 0 (?md, ?io)"
    by (simp add: on_tick_def Let_def)
  then show ?thesis
    using False by (simp add: tick_loop_eq ticked_upto_def c r) (simp add: emit_def)
qed


subsection \<open>A run: \<^verbatim>\<open>open\<close>, then twelve ticks\<close>

lemma start_streams_single:
  "\<not> m_accept_multi md \<Longrightarrow> m_streams md = [] \<Longrightarrow>
   start_streams obj (md, io) =
     (md\<lparr>m_streams := [obj\<lparr>m_last_request_time := Some (clock io (reads io))\<rparr>], m_abort := False\<rparr>,
      io\<lparr>reads := Suc (reads io),
         events := events io @ (if m_keep_alive md then [Clear (m_stream obj)] else []) @
           [Async_request (m_stream obj)
              (if m_keep_alive md then [(''Connection'', ''keep-alive'')]
               else [(''Connection'', ''close'')]) 0,
            Async_wait (m_timer md)]\<rparr>)"
  by (simp add: start_streams_def Let_def local_time_def emit_def set_last_request_time_def)

lemma opened_plain:
  "open_ec ''http://x/f'' (multi_download_ctor 0, plain_io) = Inr (0, plain_opened)"
  apply (simp add: open_ec_def open_md_cases plain_io_def plain_response_def open_probe_eq)
  apply (subst start_streams_single)
  apply (simp_all add: probed_def read_response_def save_settings_def create_storage_def find_opt_def probe_file_size_def
      multi_download_ctor_def settings_ctor_def to_lower_def default_connections_limit_def http_stream_object_ctor_def
default_storage_constructor_def plain_md_def seconds_def plain_opened_def plain_io_def plain_response_def)
  done

lemma quiet_ticks:
  "n \<le> 11 \<Longrightarrow>
   (on_tick ^^ n) plain_opened =
     (plain_md\<lparr>m_timer := seconds (int n)\<rparr>,
      (snd plain_opened)\<lparr>reads := Suc n,
         events := events (snd plain_opened) @ map (\<lambda>j. Async_wait (seconds (int j))) [1..<Suc n]\<rparr>)"
proof (induction n)
  case 0
  show ?case by (simp add: plain_opened_def plain_md_def seconds_def)
next
  case (Suc n)
  then have n: "n < 11" by simp
  let ?md = "plain_md\<lparr>m_timer := seconds (int n)\<rparr>"
  let ?io = "(snd plain_opened)\<lparr>reads := Suc n,
         events := events (snd plain_opened) @ map (\<lambda>j. Async_wait (seconds (int j))) [1..<Suc n]\<rparr>"
  have nt: "\<not> slot_timed_out ?md ?io 0"
    using n by (simp add: slot_timed_out_def timed_out_def plain_md_def plain_opened_def
        plain_io_def seconds_def)
  have "on_tick (?md, ?io) =
     (plain_md\<lparr>m_timer := seconds (int (Suc n))\<rparr>,
      (snd plain_opened)\<lparr>reads := Suc (Suc n),
         events := events (snd plain_opened) @ map (\<lambda>j. Async_wait (seconds (int j))) [1..<Suc (Suc n)]\<rparr>)"
    unfolding on_tick_eq using nt nt [unfolded slot_timed_out_def]
    by (simp add: plain_md_def slot_events_def seconds_def algebra_simps)
  with Suc n show ?case by simp
qed

lemma twelfth_tick:
  assumes "md = plain_md\<lparr>m_timer := t, m_abort := a\<rparr>" and "reads io = 12" and "clock io = (\<lambda>k. int k * 1000000)"
    and "next_stream io = 1"
  shows "on_tick (md, io) =
     (md\<lparr>m_timer := (if a then t else t + 1000000),
         m_streams := [\<lparr>m_stream = Stream 1, m_request_range = (0, 0), m_bytes_transferred = 0,
          m_bytes_downloaded = 0, m_last_request_time = Some 13000000\<rparr>]\<rparr>,
      io\<lparr>reads := 14, next_stream := 2,
         events := events io @ (if a then [] else [Async_wait (t + 1000000)]) @
            [Close (Stream 0), Async_open (Stream 1) ''http://x/f'' 0]\<rparr>)"
proof -
  have to: "slot_timed_out md io 0"
    using assms by (simp add: slot_timed_out_def timed_out_def plain_md_def seconds_def)
  show ?thesis
    unfolding on_tick_eq using to to [unfolded slot_timed_out_def] assms
    by (simp add: plain_md_def slot_events_def reset_stream_def seconds_def)
qed


lemma eleven_ticks:
  "fst ((on_tick ^^ 11) plain_opened) = plain_md\<lparr>m_timer := 11000000\<rparr>"
  "reads (snd ((on_tick ^^ 11) plain_opened)) = 12"
  "next_stream (snd ((on_tick ^^ 11) plain_opened)) = 1"
  "clock (snd ((on_tick ^^ 11) plain_opened)) = (\<lambda>k. int k * 1000000)"
  by (simp_all add: quiet_ticks seconds_def) (simp_all add: plain_opened_def plain_io_def)

subsection \<open>The timer\<close>

text \<open>
  C8. While the abort flag is unset, a tick moves the expiry of the timer to the previous
  expiry plus one second and waits on it again; the new expiry does not depend on the
  clock, whose readings are arbitrary here. So after \<open>n\<close> ticks the timer expires
  \<open>n\<close> seconds after the initial expiry.
\<close>

theorem tick_reschedules_at_previous_deadline:
  assumes "\<not> m_abort md"
  shows "m_timer (fst (on_tick (md, io))) = m_timer md + seconds 1 \<and>
         Async_wait (m_timer md + seconds 1) \<in> set (events (snd (on_tick (md, io)))) \<and>
         m_abort (fst (on_tick (md, io))) = m_abort md \<and>
         m_timer (fst ((on_tick ^^ n) (md, io))) = m_timer md + seconds (int n)"
proof -
  have abort: "m_abort (fst ((on_tick ^^ k) st)) = m_abort (fst st)" for k st
  proof (induction k)
    case 0
    show ?case by simp
  next
    case (Suc k)
    then show ?case by (cases "(on_tick ^^ k) st") (simp add: on_tick_eq)
  qed
  have many: "m_timer (fst ((on_tick ^^ n) (md, io))) = m_timer md + seconds (int n)"
  proof (induction n)
    case 0
    show ?case by (simp add: seconds_def)
  next
    case (Suc n)
    obtain md1 io1 where st: "(on_tick ^^ n) (md, io) = (md1, io1)"
      by (cases "(on_tick ^^ n) (md, io)")
    have "\<not> m_abort md1"
      using abort [of n "(md, io)"] assms st by simp
    with Suc st show ?case
      by (simp add: on_tick_eq seconds_def algebra_simps)
  qed
  from assms many show ?thesis
    by (simp add: on_tick_eq)
qed

theorem tick_reschedules_at_previous_deadline_witness:
  "\<not> m_abort plain_md \<and>
   m_timer (fst (on_tick (plain_md, plain_io))) = 1000000 \<and>
   m_timer (fst ((on_tick ^^ 3) (plain_md, plain_io))) = 3000000"
  using tick_reschedules_at_previous_deadline [of plain_md plain_io 3]
  by (simp add: plain_md_def seconds_def)

subsection \<open>Time-outs\<close>

text \<open>
  C4, as the code has it. On a tick, slot \<open>i\<close> is reset exactly when the clock, read
  when the loop reaches the slot, is more than \<^verbatim>\<open>m_time_out\<close> seconds past the slot's
  \<^verbatim>\<open>m_last_request_time\<close>: its stream is closed and replaced by a new one, the time
  is set to a new reading of the clock and \<^verbatim>\<open>async_open\<close> is issued on the new stream
  with the slot's index. Every other slot is left as it was and nothing is issued for
  it. Nothing else of the slot is consulted: an object has no state field, and the
  operations of the tick are the rescheduling followed by those of the slots that timed
  out, in order.
\<close>

theorem on_tick_resets_timed_out_slots:
  assumes "on_tick (md, io) = (md', io')" and "i < length (m_streams md)"
  shows "length (m_streams md') = length (m_streams md) \<and>
         m_streams md' ! i =
           (if slot_timed_out md io i then reset_stream md io i else m_streams md ! i) \<and>
         slot_timed_out md io i =
           (case m_last_request_time (m_streams md ! i) of
              None \<Rightarrow> False
            | Some t \<Rightarrow>
                clock io (reads_before md io i) - t > m_time_out (m_settings md) * 1000000) \<and>
         events io' =
           events io @ (if m_abort md then [] else [Async_wait (m_timer md + seconds 1)]) @
           concat (map (slot_events md io) [0..<length (m_streams md)])"
proof -
  have md': "md' = fst (on_tick (md, io))" and io': "io' = snd (on_tick (md, io))"
    using assms(1) by simp_all
  have meaning: "slot_timed_out md io i =
           (case m_last_request_time (m_streams md ! i) of
              None \<Rightarrow> False
            | Some t \<Rightarrow>
                clock io (reads_before md io i) - t > m_time_out (m_settings md) * 1000000)"
    by (simp add: slot_timed_out_def timed_out_def seconds_def split: option.splits)
  have "length (m_streams md') = length (m_streams md)"
    and "m_streams md' ! i =
           (if slot_timed_out md io i then reset_stream md io i else m_streams md ! i)"
    and "events io' =
           events io @ (if m_abort md then [] else [Async_wait (m_timer md + seconds 1)]) @
           concat (map (slot_events md io) [0..<length (m_streams md)])"
    unfolding md' io' on_tick_eq using assms(2) by simp_all
  with meaning show ?thesis
    by blast
qed

theorem on_tick_resets_timed_out_slots_witness:
  "\<exists>md' io'. on_tick two_slots = (md', io') \<and>
     m_streams md' =
       [\<lparr>m_stream = Stream 2, m_request_range = (0, 0), m_bytes_transferred = 0,
         m_bytes_downloaded = 0, m_last_request_time = Some 13000000\<rparr>,
        \<lparr>m_stream = Stream 1, m_request_range = (0, 0), m_bytes_transferred = 0,
         m_bytes_downloaded = 0, m_last_request_time = Some 5000000\<rparr>] \<and>
     events io' =
       [Async_wait 1000000, Close (Stream 0), Async_open (Stream 2) ''http://x/f'' 0]"
proof -
  obtain md' io' where t: "on_tick two_slots = (md', io')"
    by (cases "on_tick two_slots")
  let ?md = "fst two_slots" and ?io = "snd two_slots"
  have t': "on_tick (?md, ?io) = (md', io')"
    using t by simp
  have r0: "reads_before ?md ?io 0 = 12" and s0: "streams_before ?md ?io 0 = 2"
    by (simp_all add: two_slots_def)
  have to0: "slot_timed_out ?md ?io 0"
    by (simp add: slot_timed_out_def timed_out_def two_slots_def plain_md_def plain_io_def
          seconds_def)
  have r1: "reads_before ?md ?io (Suc 0) = 14" and s1: "streams_before ?md ?io (Suc 0) = 3"
    using to0 [unfolded slot_timed_out_def] r0 s0 by simp_all
  have to1: "\<not> slot_timed_out ?md ?io (Suc 0)"
    unfolding slot_timed_out_def r1
    by (simp add: timed_out_def two_slots_def plain_md_def plain_io_def seconds_def)
  have len: "length (m_streams ?md) = 2"
    by (simp add: two_slots_def)
  have a: "m_streams md' ! 0 = reset_stream ?md ?io 0"
    using on_tick_resets_timed_out_slots [OF t', of 0] to0 len by simp
  have b: "m_streams md' ! Suc 0 = m_streams ?md ! Suc 0"
    using on_tick_resets_timed_out_slots [OF t', of "Suc 0"] to1 len by simp
  have l: "length (m_streams md') = 2"
    using on_tick_resets_timed_out_slots [OF t', of 0] len by simp
  have e: "events io' =
      events ?io @ [Async_wait (m_timer ?md + seconds 1)] @
        slot_events ?md ?io 0 @ slot_events ?md ?io (Suc 0)"
    using on_tick_resets_timed_out_slots [OF t', of 0] len
    by (simp add: two_slots_def plain_md_def upt_rec numeral_2_eq_2)
  have "m_streams md' = [m_streams md' ! 0, m_streams md' ! Suc 0]"
    using l by (cases "m_streams md'"; cases "tl (m_streams md')") auto
  with a b have streams: "m_streams md' =
       [\<lparr>m_stream = Stream 2, m_request_range = (0, 0), m_bytes_transferred = 0,
         m_bytes_downloaded = 0, m_last_request_time = Some 13000000\<rparr>,
        \<lparr>m_stream = Stream 1, m_request_range = (0, 0), m_bytes_transferred = 0,
         m_bytes_downloaded = 0, m_last_request_time = Some 5000000\<rparr>]"
    using r0 s0 by (simp add: reset_stream_def two_slots_def plain_md_def plain_io_def)
  have "events io' =
       [Async_wait 1000000, Close (Stream 0), Async_open (Stream 2) ''http://x/f'' 0]"
    unfolding e using to0 to1 s0
    by (simp add: slot_events_def two_slots_def plain_md_def plain_io_def seconds_def)
  with t streams show ?thesis by blast
qed

text \<open>
  C4 as stated exempts idle slots. The code does not: after \<^verbatim>\<open>open\<close> on the server
  without range support, the only slot has sent its request and \<^verbatim>\<open>handle_request\<close>
  has run; the slot has no range assigned (\<^verbatim>\<open>m_request_range\<close> is still \<open>(0, 0)\<close>),
  has transferred nothing and has no operation pending. Eleven ticks leave it alone;
  the twelfth, 12 seconds after the request, closes its stream, gives it stream 1 and
  issues \<^verbatim>\<open>async_open\<close>.
\<close>

theorem tick_resets_unassigned_slot:
  "open_ec ''http://x/f'' (multi_download_ctor 0, plain_io) = Inr (0, plain_opened) \<and>
   (let st11 = (on_tick ^^ 11) (handle_request 0 (Stream 0) 0 plain_opened);
        st12 = on_tick st11
    in m_streams (fst st11) =
         [\<lparr>m_stream = Stream 0, m_request_range = (0, 0), m_bytes_transferred = 0,
           m_bytes_downloaded = 0, m_last_request_time = Some 0\<rparr>] \<and>
       m_streams (fst st12) =
         [\<lparr>m_stream = Stream 1, m_request_range = (0, 0), m_bytes_transferred = 0,
           m_bytes_downloaded = 0, m_last_request_time = Some 13000000\<rparr>] \<and>
       events (snd st12) =
         events (snd st11) @
         [Async_wait 12000000, Close (Stream 0), Async_open (Stream 1) ''http://x/f'' 0])"
proof -
  let ?st = "(on_tick ^^ 11) plain_opened"
  have md: "fst ?st = plain_md\<lparr>m_timer := 11000000, m_abort := False\<rparr>"
    by (simp add: eleven_ticks(1)) (simp add: plain_md_def)
  have "on_tick (fst ?st, snd ?st) =
     ((fst ?st)\<lparr>m_timer := 11000000 + 1000000,
         m_streams := [\<lparr>m_stream = Stream 1, m_request_range = (0, 0), m_bytes_transferred = 0,
          m_bytes_downloaded = 0, m_last_request_time = Some 13000000\<rparr>]\<rparr>,
      (snd ?st)\<lparr>reads := 14, next_stream := 2,
         events := events (snd ?st) @ [Async_wait (11000000 + 1000000)] @
            [Close (Stream 0), Async_open (Stream 1) ''http://x/f'' 0]\<rparr>)"
    using twelfth_tick [OF md eleven_ticks(2,4,3)] by simp
  then have "m_streams (fst (on_tick ?st)) =
         [\<lparr>m_stream = Stream 1, m_request_range = (0, 0), m_bytes_transferred = 0,
           m_bytes_downloaded = 0, m_last_request_time = Some 13000000\<rparr>]"
    and "events (snd (on_tick ?st)) =
         events (snd ?st) @
         [Async_wait 12000000, Close (Stream 0), Async_open (Stream 1) ''http://x/f'' 0]"
    by simp_all
  moreover have "m_streams (fst ?st) =
         [\<lparr>m_stream = Stream 0, m_request_range = (0, 0), m_bytes_transferred = 0,
           m_bytes_downloaded = 0, m_last_request_time = Some 0\<rparr>]"
    by (simp add: eleven_ticks(1)) (simp add: plain_md_def)
  ultimately show ?thesis
    by (simp add: opened_plain handle_request_def Let_def)
qed

subsection \<open>\<^verbatim>\<open>close\<close> and the abort flag\<close>

text \<open>
  C3, as the code has it: \<^verbatim>\<open>close\<close> sets the abort flag and does nothing else. The
  pool, the timer, the storage and every other member are as before, and no operation
  is issued on any collaborator.
\<close>

theorem close_sets_abort_only:
  "close (md, io) = (md\<lparr>m_abort := True\<rparr>, io)"
  by (simp add: close_def)

text \<open>
  C3 as stated fails on the coordinator that \<^verbatim>\<open>open\<close> leaves: after \<^verbatim>\<open>close\<close> the
  storage is still held, the pool still holds its connection, the timer is as it was,
  and the log has no new entry: no stream was closed and no wait was cancelled.
\<close>

theorem close_no_teardown:
  "open_ec ''http://x/f'' (multi_download_ctor 0, plain_io) = Inr (0, plain_opened) \<and>
   (let (md, io) = plain_opened; (md', io') = close plain_opened
    in m_abort md' \<and> m_storage md' = Some File_storage \<and> m_streams md' = m_streams md \<and>
       m_timer md' = m_timer md \<and> events io' = events io)"
  by (simp add: opened_plain) (simp add: close_def plain_opened_def plain_md_def)

text \<open>
  C2 at a concrete run: \<^verbatim>\<open>open\<close>, eleven ticks one second apart, \<^verbatim>\<open>close\<close>, and then
  the tick that was pending. The flag is set, and yet the tick closes the stream of
  slot 0, creates stream 1 and issues \<^verbatim>\<open>async_open\<close> on it: the guard on
  \<^verbatim>\<open>m_abort\<close> in \<^verbatim>\<open>on_tick\<close> covers the rescheduling only.
\<close>

theorem tick_after_close_opens_connection:
  "open_ec ''http://x/f'' (multi_download_ctor 0, plain_io) = Inr (0, plain_opened) \<and>
   (let st = close ((on_tick ^^ 11) plain_opened);
        st' = on_tick st
    in m_abort (fst st) \<and>
       m_streams (fst st) =
         [\<lparr>m_stream = Stream 0, m_request_range = (0, 0), m_bytes_transferred = 0,
           m_bytes_downloaded = 0, m_last_request_time = Some 0\<rparr>] \<and>
       m_streams (fst st') =
         [\<lparr>m_stream = Stream 1, m_request_range = (0, 0), m_bytes_transferred = 0,
           m_bytes_downloaded = 0, m_last_request_time = Some 13000000\<rparr>] \<and>
       events (snd st') =
         events (snd st) @ [Close (Stream 0), Async_open (Stream 1) ''http://x/f'' 0])"
proof -
  let ?st = "(on_tick ^^ 11) plain_opened"
  have cl: "close ?st = ((fst ?st)\<lparr>m_abort := True\<rparr>, snd ?st)"
    by (simp add: close_def split: prod.splits)
  have md: "(fst ?st)\<lparr>m_abort := True\<rparr> = plain_md\<lparr>m_timer := 11000000, m_abort := True\<rparr>"
    by (simp add: eleven_ticks(1))
  have "on_tick ((fst ?st)\<lparr>m_abort := True\<rparr>, snd ?st) =
     ((fst ?st)\<lparr>m_abort := True\<rparr>\<lparr>m_timer := 11000000,
         m_streams := [\<lparr>m_stream = Stream 1, m_request_range = (0, 0), m_bytes_transferred = 0,
          m_bytes_downloaded = 0, m_last_request_time = Some 13000000\<rparr>]\<rparr>,
      (snd ?st)\<lparr>reads := 14, next_stream := 2,
         events := events (snd ?st) @ [] @
            [Close (Stream 0), Async_open (Stream 1) ''http://x/f'' 0]\<rparr>)"
    using twelfth_tick [OF md eleven_ticks(2,4,3)] by simp
  then have "m_streams (fst (on_tick (close ?st))) =
         [\<lparr>m_stream = Stream 1, m_request_range = (0, 0), m_bytes_transferred = 0,
           m_bytes_downloaded = 0, m_last_request_time = Some 13000000\<rparr>]"
    and "events (snd (on_tick (close ?st))) =
         events (snd (close ?st)) @ [Close (Stream 0), Async_open (Stream 1) ''http://x/f'' 0]"
    unfolding cl by simp_all
  moreover have "m_streams (fst (close ?st)) =
         [\<lparr>m_stream = Stream 0, m_request_range = (0, 0), m_bytes_transferred = 0,
           m_bytes_downloaded = 0, m_last_request_time = Some 0\<rparr>]"
    and "m_abort (fst (close ?st))"
    unfolding cl by (simp_all add: eleven_ticks(1)) (simp add: plain_md_def)
  ultimately show ?thesis
    by (simp add: opened_plain Let_def)
qed

subsection \<open>A probe that fails\<close>

text \<open>
  C5, as the code has it. If the synchronous probe fails, \<^verbatim>\<open>open\<close> returns the error
  of the probe. The pool has been emptied and the file size set to -1 before the probe
  (lines 142 and 143); every other member (final URL, range support, keep-alive,
  settings, timer, storage, abort flag) is as before the call. The only operations are
  the two on the stream of the probe: no asynchronous operation is issued and the timer
  is not started.
\<close>

theorem open_probe_failure:
  assumes "resp_ec (server io u) \<noteq> 0"
  shows "open_md u s p (md, io) =
           Inr (resp_ec (server io u),
                md\<lparr>m_streams := [], m_file_size := - 1\<rparr>,
                io\<lparr>next_stream := Suc (next_stream io),
                   events := events io @
                     [Request_options (Stream (next_stream io))
                        [(''Range'', ''bytes=0-''), (''Connection'', ''keep-alive'')],
                      Open_sync (Stream (next_stream io)) u]\<rparr>)"
  using assms by (simp add: open_md_cases open_probe_eq)

theorem open_probe_failure_witness:
  "resp_ec (server (plain_io\<lparr>server := \<lambda>u. refused_response\<rparr>) ''http://x/f'') \<noteq> 0 \<and>
   open_md ''http://x/f'' settings_ctor None
     (multi_download_ctor 0, plain_io\<lparr>server := \<lambda>u. refused_response\<rparr>) =
     Inr (111, multi_download_ctor 0,
          plain_io\<lparr>server := \<lambda>u. refused_response, next_stream := 1,
             events :=
               [Request_options (Stream 0)
                  [(''Range'', ''bytes=0-''), (''Connection'', ''keep-alive'')],
                Open_sync (Stream 0) ''http://x/f'']\<rparr>)"
proof -
  let ?io = "plain_io\<lparr>server := \<lambda>u. refused_response\<rparr>"
  have ec: "resp_ec (server ?io ''http://x/f'') \<noteq> 0"
    by (simp add: refused_response_def)
  show ?thesis
    using ec open_probe_failure [OF ec, of settings_ctor None "multi_download_ctor 0"]
    by (simp add: refused_response_def plain_io_def multi_download_ctor_def)
qed

text \<open>
  C5 as stated fails when \<^verbatim>\<open>open\<close> is called again on a coordinator that holds a
  transfer: the pool that the first \<^verbatim>\<open>open\<close> built is gone when the second returns the
  error of its probe.
\<close>

theorem reopen_failure_empties_pool:
  "open_ec ''http://x/f'' (multi_download_ctor 0, plain_io) = Inr (0, plain_opened) \<and>
   (let (md, io) = plain_opened
    in m_streams md \<noteq> [] \<and>
       (case open_ec ''http://x/f'' (md, io\<lparr>server := \<lambda>u. refused_response\<rparr>) of
          Inl f \<Rightarrow> False
        | Inr (ec, md', io') \<Rightarrow> ec = 111 \<and> m_streams md' = []))"
  by (simp add: opened_plain)
     (simp add: plain_opened_def plain_md_def open_ec_def open_md_cases open_probe_eq
        refused_response_def)

subsection \<open>Range support and the file size\<close>

text \<open>
  C1, as the code has it. When \<^verbatim>\<open>open\<close> has returned success, \<^verbatim>\<open>m_accept_multi\<close> is
  true exactly when the status code of the probe's response is \<^verbatim>\<open>206\<close> and the size
  text (the \<^verbatim>\<open>Content-Length\<close> header or, when that is absent or empty, what follows
  the first slash of \<^verbatim>\<open>Content-Range\<close>) reads as a 64-bit integer.
\<close>

theorem open_accept_multi:
  assumes "open_md u s p (md, io) = Inr (0, md', io')"
  shows "m_accept_multi md' =
           (find_opt (response_options (server io u)) ''_status_code'' [] = ''206'' \<and>
            lexical_cast_int64 (size_text (response_options (server io u))) \<noteq> None) \<and>
         size_text (response_options (server io u)) =
           (if find_opt (response_options (server io u)) ''Content-Length'' [] \<noteq> []
            then find_opt (response_options (server io u)) ''Content-Length'' []
            else after_slash (find_opt (response_options (server io u)) ''Content-Range'' []))"
proof -
  have "m_accept_multi md' =
          fst (if find_opt (response_options (server io u)) ''_status_code'' [] = ''206''
            then (case lexical_cast_int64 (size_text (response_options (server io u))) of
                    Some n \<Rightarrow> (True, n)
                  | None \<Rightarrow> (False, - 1))
            else (False, - 1))"
    using arg_cong [OF open_md_accept_size [OF assms], of fst] by (simp only: fst_conv)
  moreover have "size_text (response_options (server io u)) =
           (if find_opt (response_options (server io u)) ''Content-Length'' [] \<noteq> []
            then find_opt (response_options (server io u)) ''Content-Length'' []
            else after_slash (find_opt (response_options (server io u)) ''Content-Range'' []))"
    by (simp add: size_text_def Let_def)
  ultimately show ?thesis
    by (cases "lexical_cast_int64 (size_text (response_options (server io u)))") simp_all
qed

theorem open_accept_multi_witness:
  "\<exists>md' io'. open_md ''http://x/f'' settings_ctor None (multi_download_ctor 0, ranged_io)
                = Inr (0, md', io') \<and>
     m_accept_multi md' \<and>
     find_opt (response_options (server ranged_io ''http://x/f'')) ''_status_code'' [] = ''206'' \<and>
     lexical_cast_int64 (size_text (response_options (server ranged_io ''http://x/f''))) = Some 100"
proof -
  let ?md = "multi_download_ctor 0"
  have srv: "server ranged_io ''http://x/f'' = ranged_response"
    by (simp add: ranged_io_def)
  have "resp_ec (server ranged_io ''http://x/f'') = 0"
    by (simp add: srv ranged_response_def)
  from open_md_returns_ok [OF this, of None settings_ctor ?md]
  obtain md' io' where
    h: "open_md ''http://x/f'' settings_ctor None (?md, ranged_io) = Inr (0, md', io')"
    by auto
  have st: "find_opt (response_options (server ranged_io ''http://x/f'')) ''_status_code'' [] = ''206''"
    by (simp add: srv ranged_response_def find_opt_def)
  have sz: "lexical_cast_int64 (size_text (response_options (server ranged_io ''http://x/f''))) = Some 100"
    by (simp add: srv ranged_response_def find_opt_def size_text_def lexical_cast_int64_def
          lcast_ret_unsigned_def is_digit_def)
  from open_accept_multi [OF h] st sz have "m_accept_multi md'"
    by simp
  with h st sz show ?thesis
    by blast
qed

text \<open>
  C1 as stated fails for a \<^verbatim>\<open>206\<close> that carries neither header: \<^verbatim>\<open>open\<close> succeeds
  and \<^verbatim>\<open>m_accept_multi\<close> is false.
\<close>

theorem status_206_without_length:
  "case open_ec ''http://x/f''
          (multi_download_ctor 0, plain_io\<lparr>server := \<lambda>u. bare_206_response\<rparr>) of
     Inl f \<Rightarrow> False
   | Inr (ec, md', io') \<Rightarrow>
       ec = 0 \<and>
       find_opt (response_options bare_206_response) ''_status_code'' [] = ''206'' \<and>
       \<not> m_accept_multi md'"
proof -
  let ?md = "multi_download_ctor 0" and ?io = "plain_io\<lparr>server := \<lambda>u. bare_206_response\<rparr>"
  have "resp_ec (server ?io ''http://x/f'') = 0"
    by (simp add: bare_206_response_def)
  from open_md_returns_ok [OF this, of None settings_ctor ?md]
  obtain md' io' where
    h: "open_md ''http://x/f'' settings_ctor None (?md, ?io) = Inr (0, md', io')"
    by auto
  have "(m_accept_multi md', m_file_size md') = (False, - 1)"
    unfolding open_md_accept_size [OF h]
    by (simp add: bare_206_response_def find_opt_def size_text_def after_slash_def)
  then show ?thesis
    using h by (simp add: open_ec_def bare_206_response_def find_opt_def)
qed

text \<open>
  C7, as the code has it. The size is read only when the status code is \<^verbatim>\<open>206\<close>:
  then \<^verbatim>\<open>m_file_size\<close> is the integer that the size text reads as, and if the text
  does not read as an integer the size stays -1 and multi-connection mode is disabled.
  For any other status the size stays -1 and the mode is disabled. Provided the size
  text does not spell -1, multi-connection mode is enabled after a successful
  \<^verbatim>\<open>open\<close> only with a known size, and disabled only with an unknown one.
\<close>

theorem open_file_size:
  assumes "open_md u s p (md, io) = Inr (0, md', io')"
    and "lexical_cast_int64 (size_text (response_options (server io u))) \<noteq> Some (- 1)"
  shows "(m_accept_multi md', m_file_size md') =
           (if find_opt (response_options (server io u)) ''_status_code'' [] = ''206''
            then (case lexical_cast_int64 (size_text (response_options (server io u))) of
                    Some n \<Rightarrow> (True, n)
                  | None \<Rightarrow> (False, - 1))
            else (False, - 1)) \<and>
         size_text (response_options (server io u)) =
           (if find_opt (response_options (server io u)) ''Content-Length'' [] \<noteq> []
            then find_opt (response_options (server io u)) ''Content-Length'' []
            else after_slash (find_opt (response_options (server io u)) ''Content-Range'' [])) \<and>
         (if m_accept_multi md' then m_file_size md' \<noteq> - 1 else m_file_size md' = - 1)"
proof -
  note eq = open_md_accept_size [OF assms(1)]
  have a: "m_accept_multi md' =
          fst (if find_opt (response_options (server io u)) ''_status_code'' [] = ''206''
            then (case lexical_cast_int64 (size_text (response_options (server io u))) of
                    Some n \<Rightarrow> (True, n)
                  | None \<Rightarrow> (False, - 1))
            else (False, - 1))"
    and f: "m_file_size md' =
          snd (if find_opt (response_options (server io u)) ''_status_code'' [] = ''206''
            then (case lexical_cast_int64 (size_text (response_options (server io u))) of
                    Some n \<Rightarrow> (True, n)
                  | None \<Rightarrow> (False, - 1))
            else (False, - 1))"
    using arg_cong [OF eq, of fst] arg_cong [OF eq, of snd]
    by (simp_all only: fst_conv snd_conv)
  have known: "(if m_accept_multi md' then m_file_size md' \<noteq> - 1 else m_file_size md' = - 1)"
    unfolding a f using assms(2)
    by (cases "lexical_cast_int64 (size_text (response_options (server io u)))") simp_all
  have chosen: "size_text (response_options (server io u)) =
           (if find_opt (response_options (server io u)) ''Content-Length'' [] \<noteq> []
            then find_opt (response_options (server io u)) ''Content-Length'' []
            else after_slash (find_opt (response_options (server io u)) ''Content-Range'' []))"
    by (simp add: size_text_def Let_def)
  from eq chosen known show ?thesis
    by blast
qed

theorem open_file_size_witness:
  "\<exists>md' io'. open_md ''http://x/f'' settings_ctor None (multi_download_ctor 0, ranged_io)
                = Inr (0, md', io') \<and>
     lexical_cast_int64 (size_text (response_options (server ranged_io ''http://x/f''))) = Some 100 \<and>
     m_accept_multi md' \<and> m_file_size md' = 100"
proof -
  let ?md = "multi_download_ctor 0"
  have srv: "server ranged_io ''http://x/f'' = ranged_response"
    by (simp add: ranged_io_def)
  have "resp_ec (server ranged_io ''http://x/f'') = 0"
    by (simp add: srv ranged_response_def)
  from open_md_returns_ok [OF this, of None settings_ctor ?md]
  obtain md' io' where
    h: "open_md ''http://x/f'' settings_ctor None (?md, ranged_io) = Inr (0, md', io')"
    by auto
  have st: "find_opt (response_options (server ranged_io ''http://x/f'')) ''_status_code'' [] = ''206''"
    by (simp add: srv ranged_response_def find_opt_def)
  have sz: "lexical_cast_int64 (size_text (response_options (server ranged_io ''http://x/f''))) = Some 100"
    by (simp add: srv ranged_response_def find_opt_def size_text_def lexical_cast_int64_def
          lcast_ret_unsigned_def is_digit_def)
  then have ne: "lexical_cast_int64 (size_text (response_options (server ranged_io ''http://x/f''))) \<noteq> Some (- 1)"
    by simp
  from open_file_size [OF h ne] st sz have "m_accept_multi md' \<and> m_file_size md' = 100"
    by simp
  with h sz show ?thesis
    by blast
qed

text \<open>
  C7 as stated fails twice. A \<^verbatim>\<open>200\<close> with \<^verbatim>\<open>Content-Length: 12\<close> leaves the size
  unknown although the header reads as an integer: the header is not looked at. And a
  \<^verbatim>\<open>206\<close> with \<^verbatim>\<open>Content-Length: -1\<close> leaves multi-connection mode enabled with the
  size at -1, the value that stands for unknown.
\<close>

theorem size_not_read_or_minus_one:
  "open_ec ''http://x/f'' (multi_download_ctor 0, plain_io) = Inr (0, plain_opened) \<and>
   lexical_cast_int64 (find_opt (response_options plain_response) ''Content-Length'' []) = Some 12 \<and>
   m_file_size (fst plain_opened) = - 1 \<and>
   (case open_ec ''http://x/f''
           (multi_download_ctor 0, plain_io\<lparr>server := \<lambda>u. minus_one_response\<rparr>) of
      Inl f \<Rightarrow> False
    | Inr (ec, md', io') \<Rightarrow> ec = 0 \<and> m_accept_multi md' \<and> m_file_size md' = - 1)"
proof -
  let ?md = "multi_download_ctor 0" and ?io = "plain_io\<lparr>server := \<lambda>u. minus_one_response\<rparr>"
  have "resp_ec (server ?io ''http://x/f'') = 0"
    by (simp add: minus_one_response_def)
  from open_md_returns_ok [OF this, of None settings_ctor ?md]
  obtain md' io' where
    h: "open_md ''http://x/f'' settings_ctor None (?md, ?io) = Inr (0, md', io')"
    by auto
  have "(m_accept_multi md', m_file_size md') = (True, - 1)"
    unfolding open_md_accept_size [OF h]
    by (simp add: minus_one_response_def find_opt_def size_text_def lexical_cast_int64_def
          lcast_ret_unsigned_def is_digit_def)
  then have b: "case open_ec ''http://x/f'' (?md, ?io) of
      Inl f \<Rightarrow> False
    | Inr (ec, md', io') \<Rightarrow> ec = 0 \<and> m_accept_multi md' \<and> m_file_size md' = - 1"
    using h by (simp add: open_ec_def)
  have c: "lexical_cast_int64 (find_opt (response_options plain_response) ''Content-Length'' []) = Some 12"
    by (simp add: plain_response_def find_opt_def lexical_cast_int64_def
          lcast_ret_unsigned_def is_digit_def)
  have d: "m_file_size (fst plain_opened) = - 1"
    by (simp add: plain_opened_def plain_md_def)
  from opened_plain b c d show ?thesis
    by blast
qed

end
